theory Spec2Isabelle
  imports Main
begin

section \<open>Errors of the gateway\<close>

text \<open>
  Go's \<open>int\<close> has 64 bits on the platforms of the gateway. It is modelled as
  \<open>int\<close>: the counters are incremented once for each chunk or part received, so
  wrapping one around would take \<open>2^63\<close> of them, and the token counts are read from
  the provider's JSON and only copied or added in pairs.
\<close>

definition StatusBadRequest :: int where
  "StatusBadRequest = 400"

definition StatusUnauthorized :: int where
  "StatusUnauthorized = 401"

definition StatusForbidden :: int where
  "StatusForbidden = 403"

definition StatusInternalServerError :: int where
  "StatusInternalServerError = 500"

datatype ErrorCode =
    ErrorCodeBadResponseBody
  | ErrorCodeContentFiltered
  | ErrorCodeEmptyResponse
  | ErrorCodeOther string

text \<open>
  Modelled from the spec: package \<open>types\<close> (\<open>NewAPIError\<close> and its constructors) is
  not under src/. An error value carries what the spec (section 6) lists for it: the
  message, the error code, the HTTP status code and the skip-retry mark.
  \<open>NewOpenAIError\<close> is called without options, \<open>NewErrorWithStatusCode\<close> is called
  with \<open>ErrOptionWithSkipRetry()\<close> where the last argument is \<open>True\<close>.
\<close>

record NewAPIError =
  Err :: string
  errorCode :: ErrorCode
  StatusCode :: int
  skipRetry :: bool

definition NewOpenAIError :: "string \<Rightarrow> ErrorCode \<Rightarrow> int \<Rightarrow> NewAPIError" where
  "NewOpenAIError msg code status =
     \<lparr>Err = msg, errorCode = code, StatusCode = status, skipRetry = False\<rparr>"

definition NewErrorWithStatusCode :: "string \<Rightarrow> ErrorCode \<Rightarrow> int \<Rightarrow> bool \<Rightarrow> NewAPIError" where
  "NewErrorWithStatusCode msg code status withSkipRetry =
     \<lparr>Err = msg, errorCode = code, StatusCode = status, skipRetry = withSkipRetry\<rparr>"

definition IsSkipRetryError :: "NewAPIError option \<Rightarrow> bool" where
  "IsSkipRetryError err = (case err of None \<Rightarrow> False | Some e \<Rightarrow> skipRetry e)"

section \<open>Channel health policy\<close>

record OpenAIError =
  Code :: string
  Type :: string

text \<open>
  What \<open>ShouldDisableChannel\<close> reads from outside its own file: the global switch,
  the configured keywords, the constant \<open>constant.ChannelTypeGemini\<close>, and the
  functions \<open>types.IsChannelError\<close>, \<open>NewAPIError.ToOpenAIError\<close>,
  \<open>strings.ToLower\<close> and \<open>AcSearch\<close> (its first result). None of them is under
  src/: they are parameters.
\<close>

record policy_env =
  AutomaticDisableChannelEnabled :: bool
  AutomaticDisableKeywords :: "string list"
  ChannelTypeGemini :: int
  IsChannelError :: "NewAPIError \<Rightarrow> bool"
  ToOpenAIError :: "NewAPIError \<Rightarrow> OpenAIError"
  ToLower :: "string \<Rightarrow> string"
  AcSearch :: "string \<Rightarrow> string list \<Rightarrow> bool \<Rightarrow> bool"

subsection \<open>\<open>strings.TrimSpace\<close>\<close>

text \<open>
  Strings are byte strings in UTF-8. \<open>strings.TrimSpace\<close> removes the leading and the
  trailing runes for which \<open>unicode.IsSpace\<close> holds: six ASCII characters, U+0085 and
  U+00A0 (two bytes each), and U+1680, U+2000 to U+200A, U+2028, U+2029, U+202F, U+205F,
  U+3000 (three bytes each).
\<close>

definition space1 :: "char \<Rightarrow> bool" where
  "space1 a \<longleftrightarrow> a \<in> {CHR 0x09, CHR 0x0A, CHR 0x0B, CHR 0x0C, CHR 0x0D, CHR 0x20}"

definition space2 :: "char \<Rightarrow> char \<Rightarrow> bool" where
  "space2 a b \<longleftrightarrow> a = CHR 0xC2 \<and> b \<in> {CHR 0x85, CHR 0xA0}"

definition space3 :: "char \<Rightarrow> char \<Rightarrow> char \<Rightarrow> bool" where
  "space3 a b c \<longleftrightarrow>
     a = CHR 0xE1 \<and> b = CHR 0x9A \<and> c = CHR 0x80
   \<or> a = CHR 0xE2 \<and> b = CHR 0x80 \<and>
       c \<in> {CHR 0x80, CHR 0x81, CHR 0x82, CHR 0x83, CHR 0x84, CHR 0x85, CHR 0x86, CHR 0x87,
            CHR 0x88, CHR 0x89, CHR 0x8A, CHR 0xA8, CHR 0xA9, CHR 0xAF}
   \<or> a = CHR 0xE2 \<and> b = CHR 0x81 \<and> c = CHR 0x9F
   \<or> a = CHR 0xE3 \<and> b = CHR 0x80 \<and> c = CHR 0x80"

text \<open>
  \<open>trim_runes\<close> drops white-space runes from the front of a byte string; the three
  predicates recognise the runes of one, two and three bytes.
\<close>

fun trim_runes ::
  "(char \<Rightarrow> bool) \<Rightarrow> (char \<Rightarrow> char \<Rightarrow> bool) \<Rightarrow> (char \<Rightarrow> char \<Rightarrow> char \<Rightarrow> bool) \<Rightarrow> string \<Rightarrow> string"
where
  "trim_runes p1 p2 p3 (a # b # c # s) =
     (if p1 a then trim_runes p1 p2 p3 (b # c # s)
      else if p2 a b then trim_runes p1 p2 p3 (c # s)
      else if p3 a b c then trim_runes p1 p2 p3 s
      else a # b # c # s)"
| "trim_runes p1 p2 p3 [a, b] =
     (if p1 a then trim_runes p1 p2 p3 [b]
      else if p2 a b then []
      else [a, b])"
| "trim_runes p1 p2 p3 [a] = (if p1 a then [] else [a])"
| "trim_runes p1 p2 p3 [] = []"

definition TrimLeft :: "string \<Rightarrow> string" where
  "TrimLeft s = trim_runes space1 space2 space3 s"

definition TrimRight :: "string \<Rightarrow> string" where
  "TrimRight s =
     rev (trim_runes space1 (\<lambda>b a. space2 a b) (\<lambda>c b a. space3 a b c) (rev s))"

definition TrimSpace :: "string \<Rightarrow> string" where
  "TrimSpace s = TrimRight (TrimLeft s)"

subsection \<open>\<open>ShouldDisableChannel\<close>\<close>

definition quota_exhausted_message :: string where
  "quota_exhausted_message =
     ''You exceeded your current quota, please check your plan and billing details. For more information on this error, head to: https://ai.google.dev/gemini-api/docs/rate-limits.''"

text \<open>The error is a pointer in the source: \<open>None\<close> is \<open>nil\<close>.\<close>

definition ShouldDisableChannel :: "policy_env \<Rightarrow> int \<Rightarrow> NewAPIError option \<Rightarrow> bool" where
  "ShouldDisableChannel env channelType err =
     (if \<not> AutomaticDisableChannelEnabled env then False
      else case err of
        None \<Rightarrow> False
      | Some e \<Rightarrow>
          if IsChannelError env e then True
          else if IsSkipRetryError err then False
          else if StatusCode e = StatusUnauthorized then True
          else if StatusCode e = StatusForbidden \<and> channelType = ChannelTypeGemini env then True
          else
            let oaiErr = ToOpenAIError env e in
            if Code oaiErr \<in> {''invalid_api_key'', ''account_deactivated'',
                 ''billing_not_active'', ''pre_consume_token_quota_failed''} then True
            else if Type oaiErr \<in> {''insufficient_quota'', ''insufficient_user_quota'',
                 ''authentication_error'', ''permission_error'', ''forbidden''} then True
            else if channelType = ChannelTypeGemini env
                    \<and> TrimSpace (Err e) = quota_exhausted_message then True
            else AcSearch env (ToLower env (Err e)) (AutomaticDisableKeywords env) True)"

section \<open>The provider envelope\<close>

text \<open>
  A JSON document after generic parsing. \<open>JInt\<close> is a number written as an integer,
  \<open>JNonInt\<close> any other number (its text is kept); an object keeps its members in the
  order of the document. An integer is taken to fit Go's \<open>int\<close>.
\<close>

datatype json =
    JNull
  | JBool bool
  | JInt int
  | JNonInt string
  | JString string
  | JArray "json list"
  | JObject "(string \<times> json) list"

text \<open>A key that occurs twice in an object has the value of its last occurrence.\<close>

definition object_member :: "string \<Rightarrow> (string \<times> json) list \<Rightarrow> json option" where
  "object_member k kvs = map_of (rev kvs) k"

text \<open>
  Modelled from the spec: the declarations of package \<open>dto\<close> (\<open>GeminiChatResponse\<close>
  and \<open>Usage\<close>) are not under src/. The envelope has the shape of the spec's section 6:
  \<open>promptFeedback{blockReason}\<close>,
  \<open>candidates[]{content{parts[]{text?, inlineData?{mimeType}}}}\<close> and
  \<open>usageMetadata{promptTokenCount, candidatesTokenCount, thoughtsTokenCount,
  totalTokenCount, promptTokensDetails[]{modality, tokenCount}}\<close>; the records hold the
  fields the handlers read. \<open>InlineData\<close> is a pointer in the source: \<open>None\<close> is
  \<open>nil\<close>.
\<close>

record GeminiInlineData =
  MimeType :: string

record GeminiPart =
  Text :: string
  InlineData :: "GeminiInlineData option"

record GeminiChatContent =
  Parts :: "GeminiPart list"

record GeminiChatCandidate =
  Content :: GeminiChatContent

record GeminiChatPromptFeedback =
  BlockReason :: string

record GeminiPromptTokensDetails =
  Modality :: string
  TokenCount :: int

record GeminiUsageMetadata =
  PromptTokenCount :: int
  CandidatesTokenCount :: int
  ThoughtsTokenCount :: int
  TotalTokenCount :: int
  PromptTokensDetails :: "GeminiPromptTokensDetails list"

record GeminiChatResponse =
  Candidates :: "GeminiChatCandidate list"
  PromptFeedback :: GeminiChatPromptFeedback
  UsageMetadata :: GeminiUsageMetadata

text \<open>
  The normalized usage record (spec, section 6). \<open>ReasoningTokens\<close> is
  \<open>CompletionTokenDetails.ReasoningTokens\<close> of the source, \<open>AudioTokens\<close> and
  \<open>TextTokens\<close> are \<open>PromptTokensDetails.AudioTokens\<close> and
  \<open>PromptTokensDetails.TextTokens\<close>.
\<close>

record Usage =
  PromptTokens :: int
  CompletionTokens :: int
  TotalTokens :: int
  ReasoningTokens :: int
  AudioTokens :: int
  TextTokens :: int

definition empty_Usage :: Usage where
  "empty_Usage = \<lparr>PromptTokens = 0, CompletionTokens = 0, TotalTokens = 0,
     ReasoningTokens = 0, AudioTokens = 0, TextTokens = 0\<rparr>"

subsection \<open>Decoding a JSON document into the envelope\<close>

text \<open>
  Modelled from the spec: \<open>common.Unmarshal\<close> and \<open>common.UnmarshalJsonStr\<close> are not
  under src/. A member is looked up by the name the spec's section 6 gives it; a member
  that is absent or \<open>null\<close> leaves the zero value of its field; a member of the wrong
  JSON type fails the decoding (\<open>None\<close>); members the envelope does not name are
  ignored.
\<close>

fun dec_int :: "json option \<Rightarrow> int option" where
  "dec_int None = Some 0"
| "dec_int (Some JNull) = Some 0"
| "dec_int (Some (JInt n)) = Some n"
| "dec_int (Some _) = None"

fun dec_string :: "json option \<Rightarrow> string option" where
  "dec_string None = Some []"
| "dec_string (Some JNull) = Some []"
| "dec_string (Some (JString s)) = Some s"
| "dec_string (Some _) = None"

fun dec_struct :: "((string \<times> json) list \<Rightarrow> 'a option) \<Rightarrow> json option \<Rightarrow> 'a option" where
  "dec_struct f None = f []"
| "dec_struct f (Some JNull) = f []"
| "dec_struct f (Some (JObject kvs)) = f kvs"
| "dec_struct f (Some _) = None"

fun dec_list :: "(json option \<Rightarrow> 'a option) \<Rightarrow> json option \<Rightarrow> 'a list option" where
  "dec_list f None = Some []"
| "dec_list f (Some JNull) = Some []"
| "dec_list f (Some (JArray xs)) = those (map (\<lambda>x. f (Some x)) xs)"
| "dec_list f (Some _) = None"

fun dec_pointer :: "(json option \<Rightarrow> 'a option) \<Rightarrow> json option \<Rightarrow> 'a option option" where
  "dec_pointer f None = Some None"
| "dec_pointer f (Some JNull) = Some None"
| "dec_pointer f (Some j) = map_option Some (f (Some j))"

definition dec_InlineData :: "json option \<Rightarrow> GeminiInlineData option" where
  "dec_InlineData = dec_struct (\<lambda>kvs.
     case dec_string (object_member ''mimeType'' kvs) of
       None \<Rightarrow> None
     | Some m \<Rightarrow> Some \<lparr>MimeType = m\<rparr>)"

definition dec_Part :: "json option \<Rightarrow> GeminiPart option" where
  "dec_Part = dec_struct (\<lambda>kvs.
     case (dec_string (object_member ''text'' kvs),
           dec_pointer dec_InlineData (object_member ''inlineData'' kvs)) of
       (Some t, Some d) \<Rightarrow> Some \<lparr>Text = t, InlineData = d\<rparr>
     | _ \<Rightarrow> None)"

definition dec_Content :: "json option \<Rightarrow> GeminiChatContent option" where
  "dec_Content = dec_struct (\<lambda>kvs.
     case dec_list dec_Part (object_member ''parts'' kvs) of
       None \<Rightarrow> None
     | Some ps \<Rightarrow> Some \<lparr>Parts = ps\<rparr>)"

definition dec_Candidate :: "json option \<Rightarrow> GeminiChatCandidate option" where
  "dec_Candidate = dec_struct (\<lambda>kvs.
     case dec_Content (object_member ''content'' kvs) of
       None \<Rightarrow> None
     | Some c \<Rightarrow> Some \<lparr>Content = c\<rparr>)"

definition dec_PromptFeedback :: "json option \<Rightarrow> GeminiChatPromptFeedback option" where
  "dec_PromptFeedback = dec_struct (\<lambda>kvs.
     case dec_string (object_member ''blockReason'' kvs) of
       None \<Rightarrow> None
     | Some r \<Rightarrow> Some \<lparr>BlockReason = r\<rparr>)"

definition dec_PromptTokensDetails :: "json option \<Rightarrow> GeminiPromptTokensDetails option" where
  "dec_PromptTokensDetails = dec_struct (\<lambda>kvs.
     case (dec_string (object_member ''modality'' kvs), dec_int (object_member ''tokenCount'' kvs)) of
       (Some m, Some n) \<Rightarrow> Some \<lparr>Modality = m, TokenCount = n\<rparr>
     | _ \<Rightarrow> None)"

definition dec_UsageMetadata :: "json option \<Rightarrow> GeminiUsageMetadata option" where
  "dec_UsageMetadata = dec_struct (\<lambda>kvs.
     case (dec_int (object_member ''promptTokenCount'' kvs),
           dec_int (object_member ''candidatesTokenCount'' kvs),
           dec_int (object_member ''thoughtsTokenCount'' kvs),
           dec_int (object_member ''totalTokenCount'' kvs),
           dec_list dec_PromptTokensDetails (object_member ''promptTokensDetails'' kvs)) of
       (Some p, Some c, Some t, Some n, Some ds) \<Rightarrow>
         Some \<lparr>PromptTokenCount = p, CandidatesTokenCount = c, ThoughtsTokenCount = t,
               TotalTokenCount = n, PromptTokensDetails = ds\<rparr>
     | _ \<Rightarrow> None)"

definition dec_GeminiChatResponse :: "json \<Rightarrow> GeminiChatResponse option" where
  "dec_GeminiChatResponse j = dec_struct (\<lambda>kvs.
     case (dec_list dec_Candidate (object_member ''candidates'' kvs),
           dec_PromptFeedback (object_member ''promptFeedback'' kvs),
           dec_UsageMetadata (object_member ''usageMetadata'' kvs)) of
       (Some cs, Some f, Some u) \<Rightarrow>
         Some \<lparr>Candidates = cs, PromptFeedback = f, UsageMetadata = u\<rparr>
     | _ \<Rightarrow> None) (Some j)"

text \<open>
  \<open>json.Unmarshal\<close> into a \<open>map[string]interface{}\<close>: an object gives its members,
  \<open>null\<close> leaves the map \<open>nil\<close> (no key is found in it), anything else is an error.
\<close>

fun raw_map :: "json \<Rightarrow> (string \<rightharpoonup> json) option" where
  "raw_map (JObject kvs) = Some (\<lambda>k. object_member k kvs)"
| "raw_map JNull = Some (\<lambda>k. None)"
| "raw_map _ = None"

text \<open>The type assertion \<open>.(map[string]interface{})\<close> on a looked-up value.\<close>

fun as_map :: "json option \<Rightarrow> (string \<rightharpoonup> json) option" where
  "as_map (Some (JObject kvs)) = Some (\<lambda>k. object_member k kvs)"
| "as_map _ = None"

section \<open>The translators\<close>

text \<open>
  What the handlers use from outside their file and the envelope: the generic JSON
  parser (\<open>Inl\<close> is the text of its error), the methods \<open>IsBlocked\<close> of the safety
  feedback and \<open>dto.IsEmptyThoughtResponse\<close>, and the estimator
  \<open>service.ResponseText2Usage\<close> (text, model name, prompt tokens). They are
  parameters. The stream session keeps the messages it gives to the logger; the two
  warnings and the debug print of the whole-response handler are left out.
\<close>

record relay_env =
  parse_json :: "string \<Rightarrow> string + json"
  IsBlocked :: "GeminiChatPromptFeedback \<Rightarrow> bool"
  IsEmptyThoughtResponse :: "GeminiChatResponse \<Rightarrow> bool"
  ResponseText2Usage :: "string \<Rightarrow> string \<Rightarrow> int \<Rightarrow> Usage"

definition type_error :: string where
  "type_error = ''json: cannot unmarshal''"

definition Unmarshal :: "relay_env \<Rightarrow> string \<Rightarrow> string + GeminiChatResponse" where
  "Unmarshal env data =
     (case parse_json env data of
        Inl e \<Rightarrow> Inl e
      | Inr j \<Rightarrow>
          (case dec_GeminiChatResponse j of
             None \<Rightarrow> Inl type_error
           | Some r \<Rightarrow> Inr r))"

subsection \<open>Usage of one envelope\<close>

text \<open>The loop over \<open>UsageMetadata.PromptTokensDetails\<close>, one step.\<close>

definition add_detail :: "GeminiPromptTokensDetails \<Rightarrow> Usage \<Rightarrow> Usage" where
  "add_detail detail u =
     (if Modality detail = ''AUDIO'' then u\<lparr>AudioTokens := TokenCount detail\<rparr>
      else if Modality detail = ''TEXT'' then u\<lparr>TextTokens := TokenCount detail\<rparr>
      else u)"

definition set_usage :: "GeminiUsageMetadata \<Rightarrow> Usage \<Rightarrow> Usage" where
  "set_usage um u =
     fold add_detail (PromptTokensDetails um)
       (u\<lparr>PromptTokens := PromptTokenCount um,
          CompletionTokens := CandidatesTokenCount um + ThoughtsTokenCount um,
          TotalTokens := TotalTokenCount um,
          ReasoningTokens := ThoughtsTokenCount um\<rparr>)"

subsection \<open>\<open>GeminiTextGenerationHandler\<close>\<close>

text \<open>
  The second parse of the body, into a generic map: true when the body is an object
  whose \<open>usageMetadata\<close> is an object without the key \<open>candidatesTokenCount\<close>.
\<close>

definition missing_candidatesTokenCount :: "relay_env \<Rightarrow> string \<Rightarrow> bool" where
  "missing_candidatesTokenCount env responseBody =
     (case parse_json env responseBody of
        Inl e \<Rightarrow> False
      | Inr j \<Rightarrow>
          (case raw_map j of
             None \<Rightarrow> False
           | Some raw \<Rightarrow>
               (case as_map (raw ''usageMetadata'') of
                  None \<Rightarrow> False
                | Some um \<Rightarrow> um ''candidatesTokenCount'' = None)))"

text \<open>
  The argument is the result of \<open>io.ReadAll(resp.Body)\<close> (\<open>Inl\<close> is the text of the
  read error). The result is the list of bodies written to the client by
  \<open>IOCopyBytesGracefully\<close> and the returned pair, as a sum.
\<close>

definition GeminiTextGenerationHandler ::
  "relay_env \<Rightarrow> string + string \<Rightarrow> string list \<times> (NewAPIError + Usage)" where
  "GeminiTextGenerationHandler env body =
     (case body of
        Inl err \<Rightarrow>
          ([], Inl (NewOpenAIError err ErrorCodeBadResponseBody StatusInternalServerError))
      | Inr responseBody \<Rightarrow>
          (case Unmarshal env responseBody of
             Inl err \<Rightarrow>
               ([], Inl (NewOpenAIError err ErrorCodeBadResponseBody StatusInternalServerError))
           | Inr geminiResponse \<Rightarrow>
               if IsBlocked env (PromptFeedback geminiResponse) then
                 ([], Inl (NewErrorWithStatusCode
                    (''content blocked by Gemini safety filter: ''
                       @ BlockReason (PromptFeedback geminiResponse))
                    ErrorCodeContentFiltered StatusBadRequest True))
               else
                 let usage = set_usage (UsageMetadata geminiResponse) empty_Usage in
                 if missing_candidatesTokenCount env responseBody then
                   ([], Inl (NewErrorWithStatusCode ''no response from Gemini API''
                      ErrorCodeEmptyResponse StatusBadRequest True))
                 else ([responseBody], Inr usage)))"

subsection \<open>\<open>GeminiTextGenerationStreamHandler\<close>\<close>

text \<open>The fields of \<open>RelayInfo\<close> that the stream handler reads and writes.\<close>

record RelayInfo =
  SendResponseCount :: int
  UpstreamModelName :: string
  PromptTokens_info :: int

datatype log_entry = LogError string | LogWarn string | LogDebug string

text \<open>
  The variables the callback closes over, the request's \<open>info\<close>, \<open>sent\<close>: the
  events written to the client by \<open>helper.StringData\<close>, oldest first, and
  \<open>logged\<close>: the messages given to the logger, oldest first. A failed write is only
  logged by the source and is counted like a successful one; here every write succeeds.
\<close>

record stream_state =
  usage :: Usage
  imageCount :: int
  responseText :: string
  pendingData :: string
  isPendingEmptyThought :: bool
  contentBlocked :: bool
  blockReason :: string
  info :: RelayInfo
  sent :: "string list"
  logged :: "log_entry list"

definition initial_state :: "RelayInfo \<Rightarrow> stream_state" where
  "initial_state i =
     \<lparr>usage = empty_Usage, imageCount = 0, responseText = [], pendingData = [],
      isPendingEmptyThought = False, contentBlocked = False, blockReason = [],
      info = i, sent = [], logged = []\<rparr>"

definition write_log :: "log_entry \<Rightarrow> stream_state \<Rightarrow> stream_state" where
  "write_log entry st = st\<lparr>logged := logged st @ [entry]\<rparr>"

text \<open>\<open>helper.StringData\<close> followed by \<open>info.SendResponseCount++\<close>.\<close>

definition StringData :: "string \<Rightarrow> stream_state \<Rightarrow> stream_state" where
  "StringData data st =
     st\<lparr>sent := sent st @ [data],
        info := (info st)\<lparr>SendResponseCount := SendResponseCount (info st) + 1\<rparr>\<rparr>"

text \<open>The body of the two nested loops over candidates and parts.\<close>

definition count_part :: "GeminiPart \<Rightarrow> stream_state \<Rightarrow> stream_state" where
  "count_part part st =
     (let st1 = (case InlineData part of
                   None \<Rightarrow> st
                 | Some d \<Rightarrow> if MimeType d \<noteq> [] then st\<lparr>imageCount := imageCount st + 1\<rparr>
                             else st)
      in if Text part \<noteq> [] then st1\<lparr>responseText := responseText st1 @ Text part\<rparr>
         else st1)"

definition count_candidates :: "GeminiChatCandidate list \<Rightarrow> stream_state \<Rightarrow> stream_state" where
  "count_candidates cs st = fold (\<lambda>candidate. fold count_part (Parts (Content candidate))) cs st"

text \<open>
  The callback given to \<open>helper.StreamScannerHandler\<close>: the new state and the returned
  flag.
\<close>

definition handle_data :: "relay_env \<Rightarrow> stream_state \<Rightarrow> string \<Rightarrow> stream_state \<times> bool" where
  "handle_data env st data =
     (case Unmarshal env data of
        Inl err \<Rightarrow>
          (write_log (LogError (''error unmarshalling stream response: '' @ err)) st, False)
      | Inr geminiResponse \<Rightarrow>
          if IsBlocked env (PromptFeedback geminiResponse) \<and> isPendingEmptyThought st then
            (write_log (LogWarn (''Gemini content blocked (detected empty thought pattern): ''
                          @ BlockReason (PromptFeedback geminiResponse)))
               (st\<lparr>contentBlocked := True,
                   blockReason := BlockReason (PromptFeedback geminiResponse)\<rparr>), False)
          else
            let st0 = (if IsBlocked env (PromptFeedback geminiResponse)
                       then write_log (LogWarn
                              (''Gemini content blocked (stream already started): ''
                                 @ BlockReason (PromptFeedback geminiResponse))) st
                       else st)
            in
            if SendResponseCount (info st0) = 0 \<and> pendingData st0 = []
               \<and> IsEmptyThoughtResponse env geminiResponse then
              (write_log (LogDebug
                  ''Detected potential empty thought pattern, pending first chunk'')
                 (st0\<lparr>pendingData := data, isPendingEmptyThought := True\<rparr>), True)
            else
              let st1 = (if pendingData st0 \<noteq> []
                         then (StringData (pendingData st0) st0)
                                \<lparr>pendingData := [], isPendingEmptyThought := False\<rparr>
                         else st0);
                  st2 = count_candidates (Candidates geminiResponse) st1;
                  st3 = (if TotalTokenCount (UsageMetadata geminiResponse) \<noteq> 0
                         then st2\<lparr>usage := set_usage (UsageMetadata geminiResponse) (usage st2)\<rparr>
                         else st2)
              in (StringData data st3, True))"

text \<open>
  Modelled from the spec: \<open>helper.StreamScannerHandler\<close> is not under src/. It gives
  the payloads of the stream to the callback one by one, in arrival order, and stops
  reading when the callback returns false: the spec's ``stop reading further chunks'' is
  the callback's \<open>return false\<close>, which the source comments as stopping the processing,
  as it comments \<open>return true\<close> as going on to the next chunk. The list holds the
  payloads that arrive before the stream ends.
\<close>

fun StreamScannerHandler :: "('s \<Rightarrow> string \<Rightarrow> 's \<times> bool) \<Rightarrow> 's \<Rightarrow> string list \<Rightarrow> 's" where
  "StreamScannerHandler dataHandler st [] = st"
| "StreamScannerHandler dataHandler st (data # rest) =
     (case dataHandler st data of
        (st', True) \<Rightarrow> StreamScannerHandler dataHandler st' rest
      | (st', False) \<Rightarrow> st')"

text \<open>The state when \<open>StreamScannerHandler\<close> returns.\<close>

definition scanned :: "relay_env \<Rightarrow> RelayInfo \<Rightarrow> string list \<Rightarrow> stream_state" where
  "scanned env i chunks = StreamScannerHandler (handle_data env) (initial_state i) chunks"

text \<open>The handler after the scan: the events written to the client and the result.\<close>

definition resolve :: "relay_env \<Rightarrow> stream_state \<Rightarrow> string list \<times> (NewAPIError + Usage)" where
  "resolve env st =
     (if contentBlocked st then
        (sent st, Inl (NewErrorWithStatusCode
           (''content blocked by Gemini safety filter: '' @ blockReason st)
           ErrorCodeContentFiltered StatusBadRequest True))
      else
        let st1 = (if pendingData st \<noteq> [] then StringData (pendingData st) st else st) in
        if SendResponseCount (info st1) = 0 then
          (sent st1, Inl (NewOpenAIError ''no response received from Gemini API''
             ErrorCodeEmptyResponse StatusInternalServerError))
        else
          let u1 = (if imageCount st1 \<noteq> 0 \<and> CompletionTokens (usage st1) = 0
                    then (usage st1)\<lparr>CompletionTokens := imageCount st1 * 258\<rparr>
                    else usage st1);
              u2 = (if CompletionTokens u1 = 0
                    then (if responseText st1 \<noteq> []
                          then ResponseText2Usage env (responseText st1)
                                 (UpstreamModelName (info st1)) (PromptTokens_info (info st1))
                          else empty_Usage)
                    else u1)
          in (sent st1, Inr u2))"

definition GeminiTextGenerationStreamHandler ::
  "relay_env \<Rightarrow> RelayInfo \<Rightarrow> string list \<Rightarrow> string list \<times> (NewAPIError + Usage)" where
  "GeminiTextGenerationStreamHandler env i chunks = resolve env (scanned env i chunks)"

text \<open>
  The bookkeeping of a session that starts with \<open>SendResponseCount = 0\<close>: the counter
  is the number of events written, no part has been counted negatively, and before the
  first event is written nothing has been counted and no usage has been taken.
\<close>

definition counted :: "stream_state \<Rightarrow> bool" where
  "counted st \<longleftrightarrow>
     SendResponseCount (info st) = int (length (sent st))
     \<and> 0 \<le> imageCount st
     \<and> (sent st = [] \<longrightarrow> imageCount st = 0 \<and> usage st = empty_Usage)"

section \<open>Sample collaborators and payloads\<close>

text \<open>
  Concrete values for the parameters, used to run the definitions on concrete inputs.
  The keyword search is the containment check the spec describes for it: does the text
  contain a member of the keyword list.
\<close>

fun has_prefix :: "string \<Rightarrow> string \<Rightarrow> bool" where
  "has_prefix [] s = True"
| "has_prefix (k # ks) [] = False"
| "has_prefix (k # ks) (c # cs) = (k = c \<and> has_prefix ks cs)"

fun contains :: "string \<Rightarrow> string \<Rightarrow> bool" where
  "contains [] k = (k = [])"
| "contains (c # cs) k = (has_prefix k (c # cs) \<or> contains cs k)"

definition sample_policy :: policy_env where
  "sample_policy =
     \<lparr>AutomaticDisableChannelEnabled = True,
      AutomaticDisableKeywords = [''account has been suspended''],
      ChannelTypeGemini = 24,
      IsChannelError = (\<lambda>e. case errorCode e of
                              ErrorCodeOther c \<Rightarrow> has_prefix ''channel:'' c
                            | _ \<Rightarrow> False),
      ToOpenAIError = (\<lambda>e. case errorCode e of
                             ErrorCodeOther c \<Rightarrow> \<lparr>Code = c, Type = ''upstream_error''\<rparr>
                           | _ \<Rightarrow> \<lparr>Code = ''relay_error'', Type = ''new_api_error''\<rparr>),
      ToLower = map (\<lambda>c. case map_of (zip ''ABCDEFGHIJKLMNOPQRSTUVWXYZ''
                                               ''abcdefghijklmnopqrstuvwxyz'') c of
                             None \<Rightarrow> c
                           | Some l \<Rightarrow> l),
      AcSearch = (\<lambda>text dict stopImmediately. list_ex (contains text) dict)\<rparr>"

definition transient_quota_message :: string where
  "transient_quota_message =
     quota_exhausted_message
       @ [CHR 0x0A] @ ''* Quota exceeded for metric: generate_content_free_tier_requests''"

definition channel_skip_retry :: NewAPIError where
  "channel_skip_retry =
     \<lparr>Err = ''no available key'', errorCode = ErrorCodeOther ''channel:no_available_key'',
      StatusCode = 500, skipRetry = True\<rparr>"

definition exhausted_error :: NewAPIError where
  "exhausted_error =
     \<lparr>Err = quota_exhausted_message, errorCode = ErrorCodeOther ''429'',
      StatusCode = 429, skipRetry = False\<rparr>"

definition transient_error :: NewAPIError where
  "transient_error =
     \<lparr>Err = transient_quota_message, errorCode = ErrorCodeOther ''429'',
      StatusCode = 429, skipRetry = False\<rparr>"

definition unauthorized_skip_retry :: NewAPIError where
  "unauthorized_skip_retry =
     \<lparr>Err = ''token expired'', errorCode = ErrorCodeOther ''access_denied'',
      StatusCode = 401, skipRetry = True\<rparr>"

definition exhausted_skip_retry :: NewAPIError where
  "exhausted_skip_retry =
     \<lparr>Err = quota_exhausted_message, errorCode = ErrorCodeOther ''429'',
      StatusCode = 429, skipRetry = True\<rparr>"

definition padded_error :: NewAPIError where
  "padded_error =
     \<lparr>Err = '' '' @ quota_exhausted_message @ [CHR 0x0A], errorCode = ErrorCodeOther ''429'',
      StatusCode = 429, skipRetry = False\<rparr>"

definition quota_keyword_policy :: policy_env where
  "quota_keyword_policy =
     sample_policy\<lparr>AutomaticDisableKeywords := [''quota exceeded for metric'']\<rparr>"

definition thought_chunk :: json where
  "thought_chunk =
     JObject [(''candidates'', JArray [JObject [(''content'',
       JObject [(''parts'', JArray [JObject [(''thought'', JBool True)]])])]])]"

definition blocked_chunk :: json where
  "blocked_chunk =
     JObject [(''promptFeedback'', JObject [(''blockReason'', JString ''SAFETY'')]),
              (''usageMetadata'', JObject [(''promptTokenCount'', JInt 7),
                                           (''totalTokenCount'', JInt 7)])]"

definition text_chunk :: json where
  "text_chunk =
     JObject [(''candidates'', JArray [JObject [(''content'',
                 JObject [(''parts'', JArray [JObject [(''text'', JString ''Hello'')]])])]]),
              (''usageMetadata'', JObject [(''promptTokenCount'', JInt 7),
                                           (''candidatesTokenCount'', JInt 2),
                                           (''thoughtsTokenCount'', JInt 3),
                                           (''totalTokenCount'', JInt 12)])]"

definition image_part :: json where
  "image_part = JObject [(''inlineData'',
     JObject [(''mimeType'', JString ''image/png''), (''data'', JString ''iVBORw0KGgo='')])]"

definition images_chunk :: json where
  "images_chunk =
     JObject [(''candidates'', JArray [JObject [(''content'',
       JObject [(''parts'', JArray [image_part, image_part, image_part])])]])]"

definition no_usage_body :: json where
  "no_usage_body =
     JObject [(''candidates'', JArray [JObject [(''content'',
       JObject [(''parts'', JArray [JObject [(''text'', JString ''Hello'')]])])]])]"

definition no_count_body :: json where
  "no_count_body =
     JObject [(''candidates'', JArray []),
              (''usageMetadata'', JObject [(''promptTokenCount'', JInt 7),
                                           (''totalTokenCount'', JInt 7)])]"

text \<open>The sample parser knows the payloads by name; any other text is not JSON.\<close>

definition sample_parse :: "string \<Rightarrow> string + json" where
  "sample_parse data =
     (case map_of [(''thought'', thought_chunk), (''blocked'', blocked_chunk),
                   (''text'', text_chunk), (''images'', images_chunk),
                   (''no_usage'', no_usage_body), (''no_count'', no_count_body)] data of
        None \<Rightarrow> Inl ''invalid character''
      | Some j \<Rightarrow> Inr j)"

definition sample_relay :: relay_env where
  "sample_relay =
     \<lparr>parse_json = sample_parse,
      IsBlocked = (\<lambda>f. BlockReason f \<noteq> []),
      IsEmptyThoughtResponse = (\<lambda>r. Candidates r \<noteq> []
         \<and> list_all (\<lambda>c. list_all (\<lambda>p. Text p = [] \<and> InlineData p = None)
                               (Parts (Content c))) (Candidates r)),
      ResponseText2Usage = (\<lambda>text model prompt.
         empty_Usage\<lparr>PromptTokens := prompt, CompletionTokens := int (length text),
                      TotalTokens := prompt + int (length text)\<rparr>)\<rparr>"

definition sample_info :: RelayInfo where
  "sample_info =
     \<lparr>SendResponseCount = 0, UpstreamModelName = ''gemini-2.5-flash'', PromptTokens_info = 7\<rparr>"

section \<open>Properties of the channel health policy\<close>

subsection \<open>Trimming and the quota message\<close>

lemma trim_runes_keep:
  assumes "\<not> p1 a" and "\<And>b. \<not> p2 a b" and "\<And>b c. \<not> p3 a b c"
  shows "trim_runes p1 p2 p3 (a # s) = a # s"
proof (cases s)
  case Nil
  with assms show ?thesis by simp
next
  case (Cons b t)
  with assms show ?thesis by (cases t) simp_all
qed

lemma TrimSpace_quota: "TrimSpace quota_exhausted_message = quota_exhausted_message"
  by (simp add: TrimSpace_def TrimLeft_def TrimRight_def quota_exhausted_message_def
        space1_def space2_def space3_def)

lemma ascii_not_space2: "(of_char c :: nat) < 128 \<Longrightarrow> \<not> space2 b c"
  by (auto simp: space2_def)

lemma ascii_not_space3: "(of_char c :: nat) < 128 \<Longrightarrow> \<not> space3 a b c"
  by (auto simp: space3_def)

lemma TrimRight_keep:
  assumes "s \<noteq> []" and "(of_char (last s) :: nat) < 128" and "\<not> space1 (last s)"
  shows "TrimRight s = s"
proof -
  from assms(1) have r: "rev s = last s # rev (butlast s)"
    by (metis append_butlast_last_id rev.simps(2) rev_append rev_rev_ident append_Nil
          rev.simps(1) append_Cons)
  have "trim_runes space1 (\<lambda>b a. space2 a b) (\<lambda>c b a. space3 a b c) (last s # rev (butlast s))
          = last s # rev (butlast s)"
    using assms(2,3) by (intro trim_runes_keep) (simp_all add: ascii_not_space2 ascii_not_space3)
  with r show ?thesis
    by (simp add: TrimRight_def) (metis r rev_rev_ident)
qed

lemma TrimLeft_quota_append:
  "TrimLeft (quota_exhausted_message @ sfx) = quota_exhausted_message @ sfx"
proof -
  obtain t where t: "quota_exhausted_message = CHR ''Y'' # t"
    by (simp add: quota_exhausted_message_def)
  have "trim_runes space1 space2 space3 (CHR ''Y'' # (t @ sfx)) = CHR ''Y'' # (t @ sfx)"
    by (intro trim_runes_keep) (simp_all add: space1_def space2_def space3_def)
  then show ?thesis unfolding TrimLeft_def t by simp
qed

lemma TrimSpace_appended_detail:
  assumes "sfx \<noteq> []" and "(of_char (last sfx) :: nat) < 128" and "\<not> space1 (last sfx)"
  shows "TrimSpace (quota_exhausted_message @ sfx) \<noteq> quota_exhausted_message"
proof -
  have "TrimRight (quota_exhausted_message @ sfx) = quota_exhausted_message @ sfx"
    using assms by (intro TrimRight_keep) simp_all
  then show ?thesis using assms(1) by (simp add: TrimSpace_def TrimLeft_quota_append)
qed

lemma sample_policy_simps:
  "AutomaticDisableChannelEnabled sample_policy"
  "ChannelTypeGemini sample_policy = 24"
  "AutomaticDisableKeywords sample_policy = [''account has been suspended'']"
  by (simp_all add: sample_policy_def)

lemma sample_errors_not_channel:
  "\<not> IsChannelError sample_policy exhausted_error"
  "\<not> IsChannelError sample_policy transient_error"
  by (simp_all add: sample_policy_def exhausted_error_def transient_error_def)

lemma sample_skip_retry_not_channel:
  "\<not> IsChannelError sample_policy unauthorized_skip_retry"
  by (simp add: sample_policy_def unauthorized_skip_retry_def)

lemma sample_errors_openai:
  "ToOpenAIError sample_policy exhausted_error = \<lparr>Code = ''429'', Type = ''upstream_error''\<rparr>"
  "ToOpenAIError sample_policy transient_error = \<lparr>Code = ''429'', Type = ''upstream_error''\<rparr>"
  by (simp_all add: sample_policy_def exhausted_error_def transient_error_def)

lemma sample_search_transient:
  "\<not> AcSearch sample_policy (ToLower sample_policy (Err transient_error))
       (AutomaticDisableKeywords sample_policy) True"
  by (simp add: sample_policy_def transient_error_def transient_quota_message_def
        quota_exhausted_message_def)

subsection \<open>The claims\<close>

text \<open>
  C2, as the claim states it, fails in three ways, all with automatic disabling on and
  the Gemini channel type. An error whose message is exactly the permanent-quota message
  but which is flagged skip-retry does not disable the channel. A message that is not the
  permanent-quota message, but is it with white space around it, fires the override (on
  another channel type the same error does not disable the channel). And the transient
  variant with the appended metric detail disables the channel when a configured keyword
  occurs in it.
\<close>

theorem gemini_quota_override_counterexample:
  "AutomaticDisableChannelEnabled sample_policy
   \<and> ChannelTypeGemini sample_policy = 24
   \<and> Err exhausted_skip_retry = quota_exhausted_message
   \<and> \<not> ShouldDisableChannel sample_policy 24 (Some exhausted_skip_retry)
   \<and> Err padded_error \<noteq> quota_exhausted_message
   \<and> ShouldDisableChannel sample_policy 24 (Some padded_error)
   \<and> \<not> ShouldDisableChannel sample_policy 1 (Some padded_error)
   \<and> AutomaticDisableChannelEnabled quota_keyword_policy
   \<and> ChannelTypeGemini quota_keyword_policy = 24
   \<and> TrimSpace (Err transient_error) \<noteq> quota_exhausted_message
   \<and> ShouldDisableChannel quota_keyword_policy 24 (Some transient_error)"
proof -
  have skip: "\<not> ShouldDisableChannel sample_policy 24 (Some exhausted_skip_retry)"
    by (simp add: ShouldDisableChannel_def IsSkipRetryError_def sample_policy_def
          exhausted_skip_retry_def)
  have pad_ne: "Err padded_error \<noteq> quota_exhausted_message"
    by (simp add: padded_error_def quota_exhausted_message_def)
  have pad_trim: "TrimSpace (Err padded_error) = quota_exhausted_message"
    by (simp add: padded_error_def TrimSpace_def TrimLeft_def TrimRight_def
          quota_exhausted_message_def space1_def space2_def space3_def)
  have pad_search: "\<not> AcSearch sample_policy (ToLower sample_policy (Err padded_error))
      (AutomaticDisableKeywords sample_policy) True"
    by (simp add: sample_policy_def padded_error_def quota_exhausted_message_def)
  have pad_flags: "\<not> IsChannelError sample_policy padded_error"
      "ToOpenAIError sample_policy padded_error = \<lparr>Code = ''429'', Type = ''upstream_error''\<rparr>"
      "StatusCode padded_error = 429" "\<not> skipRetry padded_error"
    by (simp_all add: sample_policy_def padded_error_def)
  have pad_gemini: "ShouldDisableChannel sample_policy 24 (Some padded_error)"
    by (simp add: ShouldDisableChannel_def IsSkipRetryError_def sample_policy_simps
          pad_flags pad_trim StatusUnauthorized_def StatusForbidden_def)
  have pad_other: "\<not> ShouldDisableChannel sample_policy 1 (Some padded_error)"
    using pad_search
    by (simp add: ShouldDisableChannel_def IsSkipRetryError_def sample_policy_simps
          pad_flags StatusUnauthorized_def StatusForbidden_def)
  have trans_trim: "TrimSpace (Err transient_error) \<noteq> quota_exhausted_message"
    by (simp add: transient_error_def transient_quota_message_def TrimSpace_def TrimLeft_def
          TrimRight_def quota_exhausted_message_def space1_def space2_def space3_def)
  have kw: "AutomaticDisableChannelEnabled quota_keyword_policy"
      "ChannelTypeGemini quota_keyword_policy = 24"
    by (simp_all add: quota_keyword_policy_def sample_policy_def)
  have kw_search: "AcSearch quota_keyword_policy
      (ToLower quota_keyword_policy (Err transient_error))
      (AutomaticDisableKeywords quota_keyword_policy) True"
    by (simp add: quota_keyword_policy_def sample_policy_def transient_error_def
          transient_quota_message_def quota_exhausted_message_def)
  have kw_flag: "\<not> IsSkipRetryError (Some transient_error)"
    by (simp add: IsSkipRetryError_def transient_error_def)
  have kw_hit: "ShouldDisableChannel quota_keyword_policy 24 (Some transient_error)"
    using kw_search kw_flag by (simp add: ShouldDisableChannel_def kw Let_def)
  have exact: "Err exhausted_skip_retry = quota_exhausted_message"
    by (simp add: exhausted_skip_retry_def)
  from skip pad_ne pad_gemini pad_other trans_trim kw kw_hit exact show ?thesis
    by (simp add: sample_policy_simps)
qed

text \<open>
  C2, amended: for the Gemini channel type, with automatic disabling on, an error that is
  a channel error or is not flagged skip-retry and whose message is exactly the
  permanent-quota message disables the channel. When none of the earlier checks decides
  (the error is not a channel error, its status is neither 401 nor 403, its code and
  type are none of the fatal markers), the override matches exactly when the message,
  with the white space around it trimmed, is the permanent-quota message, and otherwise
  the result is that of the keyword search: so the message with an appended detail that
  ends in a visible ASCII character falls through to the keyword search, and disables the
  channel exactly when that search finds a configured keyword in it.
\<close>

theorem gemini_quota_override_exact:
  assumes "AutomaticDisableChannelEnabled env"
    and "channelType = ChannelTypeGemini env"
    and "IsChannelError env e \<or> \<not> skipRetry e"
  shows "(Err e = quota_exhausted_message \<longrightarrow> ShouldDisableChannel env channelType (Some e))
       \<and> (\<not> IsChannelError env e
          \<and> StatusCode e \<noteq> 401 \<and> StatusCode e \<noteq> 403
          \<and> Code (ToOpenAIError env e) \<notin> {''invalid_api_key'', ''account_deactivated'',
                ''billing_not_active'', ''pre_consume_token_quota_failed''}
          \<and> Type (ToOpenAIError env e) \<notin> {''insufficient_quota'',
                ''insufficient_user_quota'', ''authentication_error'', ''permission_error'',
                ''forbidden''} \<longrightarrow>
            (ShouldDisableChannel env channelType (Some e) =
               (TrimSpace (Err e) = quota_exhausted_message
                \<or> AcSearch env (ToLower env (Err e)) (AutomaticDisableKeywords env) True))
          \<and> (\<forall>sfx. Err e = quota_exhausted_message @ sfx \<and> sfx \<noteq> []
                 \<and> (of_char (last sfx) :: nat) < 128 \<and> \<not> space1 (last sfx) \<longrightarrow>
               ShouldDisableChannel env channelType (Some e) =
                 AcSearch env (ToLower env (Err e)) (AutomaticDisableKeywords env) True))"
proof (intro conjI impI)
  assume "Err e = quota_exhausted_message"
  with assms show "ShouldDisableChannel env channelType (Some e)"
    by (auto simp: ShouldDisableChannel_def IsSkipRetryError_def Let_def TrimSpace_quota)
next
  assume reached: "\<not> IsChannelError env e
      \<and> StatusCode e \<noteq> 401 \<and> StatusCode e \<noteq> 403
      \<and> Code (ToOpenAIError env e) \<notin> {''invalid_api_key'', ''account_deactivated'',
            ''billing_not_active'', ''pre_consume_token_quota_failed''}
      \<and> Type (ToOpenAIError env e) \<notin> {''insufficient_quota'',
            ''insufficient_user_quota'', ''authentication_error'', ''permission_error'',
            ''forbidden''}"
  with assms show general: "ShouldDisableChannel env channelType (Some e) =
      (TrimSpace (Err e) = quota_exhausted_message
       \<or> AcSearch env (ToLower env (Err e)) (AutomaticDisableKeywords env) True)"
    by (simp add: ShouldDisableChannel_def IsSkipRetryError_def Let_def
          StatusUnauthorized_def StatusForbidden_def)
  then show "\<forall>sfx. Err e = quota_exhausted_message @ sfx \<and> sfx \<noteq> []
         \<and> (of_char (last sfx) :: nat) < 128 \<and> \<not> space1 (last sfx) \<longrightarrow>
       ShouldDisableChannel env channelType (Some e) =
         AcSearch env (ToLower env (Err e)) (AutomaticDisableKeywords env) True"
    by (auto simp: TrimSpace_appended_detail)
qed

theorem gemini_quota_override_exact_witness:
  "ShouldDisableChannel sample_policy 24 (Some exhausted_error)
   \<and> \<not> ShouldDisableChannel sample_policy 24 (Some transient_error)"
proof -
  have gemini: "24 = ChannelTypeGemini sample_policy"
    by (simp add: sample_policy_simps)
  have flags: "IsChannelError sample_policy exhausted_error \<or> \<not> skipRetry exhausted_error"
      "IsChannelError sample_policy transient_error \<or> \<not> skipRetry transient_error"
    by (simp_all add: exhausted_error_def transient_error_def)
  have exact: "Err exhausted_error = quota_exhausted_message"
    by (simp add: exhausted_error_def)
  have reached: "\<not> IsChannelError sample_policy transient_error
      \<and> StatusCode transient_error \<noteq> 401 \<and> StatusCode transient_error \<noteq> 403
      \<and> Code (ToOpenAIError sample_policy transient_error) \<notin> {''invalid_api_key'',
            ''account_deactivated'', ''billing_not_active'', ''pre_consume_token_quota_failed''}
      \<and> Type (ToOpenAIError sample_policy transient_error) \<notin> {''insufficient_quota'',
            ''insufficient_user_quota'', ''authentication_error'', ''permission_error'',
            ''forbidden''}"
    using sample_errors_not_channel(2)
    by (simp add: sample_errors_openai) (simp add: transient_error_def)
  have detail: "Err transient_error = quota_exhausted_message
        @ ([CHR 0x0A] @ ''* Quota exceeded for metric: generate_content_free_tier_requests'')
      \<and> [CHR 0x0A] @ ''* Quota exceeded for metric: generate_content_free_tier_requests'' \<noteq> []
      \<and> (of_char (last ([CHR 0x0A]
            @ ''* Quota exceeded for metric: generate_content_free_tier_requests'')) :: nat) < 128
      \<and> \<not> space1 (last ([CHR 0x0A]
            @ ''* Quota exceeded for metric: generate_content_free_tier_requests''))"
    by (simp add: transient_error_def transient_quota_message_def space1_def)
  have exhausted: "ShouldDisableChannel sample_policy 24 (Some exhausted_error)"
    using gemini_quota_override_exact [OF sample_policy_simps(1) gemini flags(1)] exact
    by blast
  have "ShouldDisableChannel sample_policy 24 (Some transient_error) =
      AcSearch sample_policy (ToLower sample_policy (Err transient_error))
        (AutomaticDisableKeywords sample_policy) True"
    using gemini_quota_override_exact [OF sample_policy_simps(1) gemini flags(2)]
      reached detail
    by blast
  with exhausted show ?thesis by (simp add: sample_search_transient)
qed

text \<open>
  C7, as the claim states it, fails: an error with status 401 that is flagged skip-retry
  and is not a channel error does not disable the channel, whatever the channel type.
\<close>

theorem unauthorized_skip_retry_counterexample:
  "AutomaticDisableChannelEnabled sample_policy
   \<and> StatusCode unauthorized_skip_retry = 401
   \<and> \<not> ShouldDisableChannel sample_policy 24 (Some unauthorized_skip_retry)
   \<and> \<not> ShouldDisableChannel sample_policy 1 (Some unauthorized_skip_retry)"
  by (simp add: ShouldDisableChannel_def IsSkipRetryError_def sample_policy_simps
        sample_skip_retry_not_channel) (simp add: unauthorized_skip_retry_def)

text \<open>
  C7, amended: with automatic disabling on, an error that is a channel error or is not
  flagged skip-retry disables the channel when its status is 401, whatever the channel
  type, and when its status is 403 and the channel type is Gemini. For another channel
  type the status 403 decides nothing: the result is that of the channel-error flag, the
  fatal codes and types and the keyword search.
\<close>

theorem unauthorized_disables_unless_skip_retry:
  assumes "AutomaticDisableChannelEnabled env"
    and "IsChannelError env e \<or> \<not> skipRetry e"
  shows "(StatusCode e = 401 \<longrightarrow> ShouldDisableChannel env channelType (Some e))
       \<and> (StatusCode e = 403 \<and> channelType = ChannelTypeGemini env \<longrightarrow>
            ShouldDisableChannel env channelType (Some e))
       \<and> (StatusCode e = 403 \<and> channelType \<noteq> ChannelTypeGemini env \<longrightarrow>
            ShouldDisableChannel env channelType (Some e) =
              (IsChannelError env e
               \<or> Code (ToOpenAIError env e) \<in> {''invalid_api_key'', ''account_deactivated'',
                    ''billing_not_active'', ''pre_consume_token_quota_failed''}
               \<or> Type (ToOpenAIError env e) \<in> {''insufficient_quota'',
                    ''insufficient_user_quota'', ''authentication_error'',
                    ''permission_error'', ''forbidden''}
               \<or> AcSearch env (ToLower env (Err e)) (AutomaticDisableKeywords env) True))"
  using assms
  by (auto simp: ShouldDisableChannel_def IsSkipRetryError_def StatusUnauthorized_def
        StatusForbidden_def Let_def)

theorem unauthorized_disables_unless_skip_retry_witness:
  "ShouldDisableChannel sample_policy 1 (Some (exhausted_error\<lparr>StatusCode := 401\<rparr>))
   \<and> ShouldDisableChannel sample_policy 24 (Some (exhausted_error\<lparr>StatusCode := 403\<rparr>))
   \<and> \<not> ShouldDisableChannel sample_policy 1 (Some (transient_error\<lparr>StatusCode := 403\<rparr>))"
proof -
  have flags:
      "IsChannelError sample_policy (exhausted_error\<lparr>StatusCode := 401\<rparr>)
         \<or> \<not> skipRetry (exhausted_error\<lparr>StatusCode := 401\<rparr>)"
      "IsChannelError sample_policy (exhausted_error\<lparr>StatusCode := 403\<rparr>)
         \<or> \<not> skipRetry (exhausted_error\<lparr>StatusCode := 403\<rparr>)"
      "IsChannelError sample_policy (transient_error\<lparr>StatusCode := 403\<rparr>)
         \<or> \<not> skipRetry (transient_error\<lparr>StatusCode := 403\<rparr>)"
    by (simp_all add: exhausted_error_def transient_error_def)
  have a: "ShouldDisableChannel sample_policy 1 (Some (exhausted_error\<lparr>StatusCode := 401\<rparr>))"
    using unauthorized_disables_unless_skip_retry [OF sample_policy_simps(1) flags(1), of 1]
    by simp
  have b: "ShouldDisableChannel sample_policy 24 (Some (exhausted_error\<lparr>StatusCode := 403\<rparr>))"
    using unauthorized_disables_unless_skip_retry [OF sample_policy_simps(1) flags(2), of 24]
    by (simp add: sample_policy_simps)
  have "ShouldDisableChannel sample_policy 1 (Some (transient_error\<lparr>StatusCode := 403\<rparr>)) =
      (IsChannelError sample_policy (transient_error\<lparr>StatusCode := 403\<rparr>)
       \<or> Code (ToOpenAIError sample_policy (transient_error\<lparr>StatusCode := 403\<rparr>))
            \<in> {''invalid_api_key'', ''account_deactivated'', ''billing_not_active'',
                ''pre_consume_token_quota_failed''}
       \<or> Type (ToOpenAIError sample_policy (transient_error\<lparr>StatusCode := 403\<rparr>))
            \<in> {''insufficient_quota'', ''insufficient_user_quota'', ''authentication_error'',
                ''permission_error'', ''forbidden''}
       \<or> AcSearch sample_policy
            (ToLower sample_policy (Err (transient_error\<lparr>StatusCode := 403\<rparr>)))
            (AutomaticDisableKeywords sample_policy) True)"
    using unauthorized_disables_unless_skip_retry [OF sample_policy_simps(1) flags(3), of 1]
    by (simp add: sample_policy_simps)
  moreover have "\<not> IsChannelError sample_policy (transient_error\<lparr>StatusCode := 403\<rparr>)"
    by (simp add: sample_policy_def transient_error_def)
  moreover have "ToOpenAIError sample_policy (transient_error\<lparr>StatusCode := 403\<rparr>)
      = \<lparr>Code = ''429'', Type = ''upstream_error''\<rparr>"
    by (simp add: sample_policy_def transient_error_def)
  moreover have "\<not> AcSearch sample_policy
      (ToLower sample_policy (Err (transient_error\<lparr>StatusCode := 403\<rparr>)))
      (AutomaticDisableKeywords sample_policy) True"
    using sample_search_transient by simp
  ultimately have c:
    "\<not> ShouldDisableChannel sample_policy 1 (Some (transient_error\<lparr>StatusCode := 403\<rparr>))"
    by simp
  from a b c show ?thesis by simp
qed

text \<open>
  C10: when automatic disabling is on, an error that is flagged both as a channel error
  and as skip-retry disables the channel: the channel-error check comes first.
\<close>

theorem channel_error_precedes_skip_retry:
  assumes "AutomaticDisableChannelEnabled env"
    and "IsChannelError env e"
    and "IsSkipRetryError (Some e)"
  shows "ShouldDisableChannel env channelType (Some e)"
  using assms by (simp add: ShouldDisableChannel_def)

theorem channel_error_precedes_skip_retry_witness:
  "IsChannelError sample_policy channel_skip_retry
   \<and> IsSkipRetryError (Some channel_skip_retry)
   \<and> ShouldDisableChannel sample_policy 1 (Some channel_skip_retry)"
proof -
  have c: "IsChannelError sample_policy channel_skip_retry"
    by (simp add: sample_policy_def channel_skip_retry_def)
  have s: "IsSkipRetryError (Some channel_skip_retry)"
    by (simp add: IsSkipRetryError_def channel_skip_retry_def)
  from c s channel_error_precedes_skip_retry [OF sample_policy_simps(1) c s, of 1]
  show ?thesis by simp
qed

section \<open>Properties of the translators\<close>

subsection \<open>Decoding and the whole response\<close>

lemma object_member_Nil: "object_member k [] = None"
  by (simp add: object_member_def)

lemma dec_absent_usage:
  assumes "dec_GeminiChatResponse (JObject kvs) = Some r"
    and "object_member ''usageMetadata'' kvs = None"
  shows "UsageMetadata r = \<lparr>PromptTokenCount = 0, CandidatesTokenCount = 0,
           ThoughtsTokenCount = 0, TotalTokenCount = 0, PromptTokensDetails = []\<rparr>"
  using assms
  by (auto simp: dec_GeminiChatResponse_def dec_UsageMetadata_def object_member_Nil
        split: option.splits)

lemma whole_missing_count:
  assumes "parse_json env responseBody = Inr (JObject kvs)"
    and "dec_GeminiChatResponse (JObject kvs) = Some r"
    and "\<not> IsBlocked env (PromptFeedback r)"
    and "object_member ''usageMetadata'' kvs = Some (JObject um)"
    and "object_member ''candidatesTokenCount'' um = None"
  shows "GeminiTextGenerationHandler env (Inr responseBody) =
           ([], Inl \<lparr>Err = ''no response from Gemini API'',
                     errorCode = ErrorCodeEmptyResponse, StatusCode = 400, skipRetry = True\<rparr>)"
  using assms
  by (simp add: GeminiTextGenerationHandler_def Unmarshal_def missing_candidatesTokenCount_def
        NewErrorWithStatusCode_def StatusBadRequest_def)

lemma whole_blocked:
  assumes "Unmarshal env responseBody = Inr r"
    and "IsBlocked env (PromptFeedback r)"
  shows "GeminiTextGenerationHandler env (Inr responseBody) =
           ([], Inl \<lparr>Err = ''content blocked by Gemini safety filter: ''
                             @ BlockReason (PromptFeedback r),
                     errorCode = ErrorCodeContentFiltered, StatusCode = 400,
                     skipRetry = True\<rparr>)"
  using assms
  by (simp add: GeminiTextGenerationHandler_def NewErrorWithStatusCode_def StatusBadRequest_def)

lemma set_usage_zero:
  "set_usage \<lparr>PromptTokenCount = 0, CandidatesTokenCount = 0, ThoughtsTokenCount = 0,
      TotalTokenCount = 0, PromptTokensDetails = []\<rparr> empty_Usage = empty_Usage"
  by (simp add: set_usage_def empty_Usage_def)

lemma whole_empty_response_only:
  assumes "GeminiTextGenerationHandler env body = (out, Inl e)
      \<and> errorCode e = ErrorCodeEmptyResponse"
  shows "\<exists>responseBody kvs um. body = Inr responseBody
       \<and> parse_json env responseBody = Inr (JObject kvs)
       \<and> object_member ''usageMetadata'' kvs = Some (JObject um)
       \<and> object_member ''candidatesTokenCount'' um = None"
proof (cases body)
  case (Inl err)
  with assms show ?thesis
    by (auto simp: GeminiTextGenerationHandler_def NewOpenAIError_def)
next
  case (Inr responseBody)
  with assms have m: "missing_candidatesTokenCount env responseBody"
    by (auto simp: GeminiTextGenerationHandler_def NewOpenAIError_def
          NewErrorWithStatusCode_def Let_def split: sum.splits if_splits)
  then obtain j raw um where j: "parse_json env responseBody = Inr j"
      and raw: "raw_map j = Some raw" and um: "as_map (raw ''usageMetadata'') = Some um"
      and c: "um ''candidatesTokenCount'' = None"
    by (auto simp: missing_candidatesTokenCount_def split: sum.splits option.splits)
  from um obtain ukvs where u: "raw ''usageMetadata'' = Some (JObject ukvs)"
      and umdef: "um = (\<lambda>k. object_member k ukvs)"
    by (cases "raw ''usageMetadata''" rule: as_map.cases) auto
  from raw u obtain kvs where "j = JObject kvs" and "raw = (\<lambda>k. object_member k kvs)"
    by (cases j) auto
  with j u umdef c Inr show ?thesis by auto
qed

subsection \<open>The sample payloads\<close>

lemma sample_unmarshal:
  "Unmarshal sample_relay ''thought'' =
     Inr \<lparr>Candidates = [\<lparr>Content = \<lparr>Parts = [\<lparr>Text = [], InlineData = None\<rparr>]\<rparr>\<rparr>],
          PromptFeedback = \<lparr>BlockReason = []\<rparr>,
          UsageMetadata = \<lparr>PromptTokenCount = 0, CandidatesTokenCount = 0,
            ThoughtsTokenCount = 0, TotalTokenCount = 0, PromptTokensDetails = []\<rparr>\<rparr>"
  "Unmarshal sample_relay ''blocked'' =
     Inr \<lparr>Candidates = [], PromptFeedback = \<lparr>BlockReason = ''SAFETY''\<rparr>,
          UsageMetadata = \<lparr>PromptTokenCount = 7, CandidatesTokenCount = 0,
            ThoughtsTokenCount = 0, TotalTokenCount = 7, PromptTokensDetails = []\<rparr>\<rparr>"
  "Unmarshal sample_relay ''text'' =
     Inr \<lparr>Candidates = [\<lparr>Content = \<lparr>Parts = [\<lparr>Text = ''Hello'', InlineData = None\<rparr>]\<rparr>\<rparr>],
          PromptFeedback = \<lparr>BlockReason = []\<rparr>,
          UsageMetadata = \<lparr>PromptTokenCount = 7, CandidatesTokenCount = 2,
            ThoughtsTokenCount = 3, TotalTokenCount = 12, PromptTokensDetails = []\<rparr>\<rparr>"
  "Unmarshal sample_relay ''images'' =
     Inr \<lparr>Candidates = [\<lparr>Content = \<lparr>Parts =
            [\<lparr>Text = [], InlineData = Some \<lparr>MimeType = ''image/png''\<rparr>\<rparr>,
             \<lparr>Text = [], InlineData = Some \<lparr>MimeType = ''image/png''\<rparr>\<rparr>,
             \<lparr>Text = [], InlineData = Some \<lparr>MimeType = ''image/png''\<rparr>\<rparr>]\<rparr>\<rparr>],
          PromptFeedback = \<lparr>BlockReason = []\<rparr>,
          UsageMetadata = \<lparr>PromptTokenCount = 0, CandidatesTokenCount = 0,
            ThoughtsTokenCount = 0, TotalTokenCount = 0, PromptTokensDetails = []\<rparr>\<rparr>"
  "Unmarshal sample_relay ''garbage'' = Inl ''invalid character''"
  by (simp_all add: Unmarshal_def sample_relay_def sample_parse_def thought_chunk_def
        blocked_chunk_def text_chunk_def images_chunk_def image_part_def
        dec_GeminiChatResponse_def dec_Candidate_def dec_Content_def dec_Part_def
        dec_InlineData_def dec_PromptFeedback_def dec_UsageMetadata_def object_member_def)

lemma sample_relay_simps:
  "IsBlocked sample_relay f = (BlockReason f \<noteq> [])"
  "IsEmptyThoughtResponse sample_relay r = (Candidates r \<noteq> []
     \<and> list_all (\<lambda>c. list_all (\<lambda>p. Text p = [] \<and> InlineData p = None) (Parts (Content c)))
          (Candidates r))"
  by (simp_all add: sample_relay_def)

lemma sample_info_fresh: "SendResponseCount sample_info = 0"
  by (simp add: sample_info_def)

lemma sample_parse_bodies:
  "parse_json sample_relay ''blocked'' = Inr blocked_chunk"
  "parse_json sample_relay ''no_count'' = Inr no_count_body"
  "parse_json sample_relay ''no_usage'' = Inr no_usage_body"
  by (simp_all add: sample_relay_def sample_parse_def)

lemma sample_dec_bodies:
  "dec_GeminiChatResponse no_count_body =
     Some \<lparr>Candidates = [], PromptFeedback = \<lparr>BlockReason = []\<rparr>,
           UsageMetadata = \<lparr>PromptTokenCount = 7, CandidatesTokenCount = 0,
             ThoughtsTokenCount = 0, TotalTokenCount = 7, PromptTokensDetails = []\<rparr>\<rparr>"
  "dec_GeminiChatResponse no_usage_body =
     Some \<lparr>Candidates = [\<lparr>Content = \<lparr>Parts = [\<lparr>Text = ''Hello'', InlineData = None\<rparr>]\<rparr>\<rparr>],
           PromptFeedback = \<lparr>BlockReason = []\<rparr>,
           UsageMetadata = \<lparr>PromptTokenCount = 0, CandidatesTokenCount = 0,
             ThoughtsTokenCount = 0, TotalTokenCount = 0, PromptTokensDetails = []\<rparr>\<rparr>"
  by (simp_all add: no_count_body_def no_usage_body_def
        dec_GeminiChatResponse_def dec_Candidate_def dec_Content_def dec_Part_def
        dec_InlineData_def dec_PromptFeedback_def dec_UsageMetadata_def object_member_def)

lemma sample_scanned_images:
  "scanned sample_relay sample_info [''images''] =
     \<lparr>usage = empty_Usage, imageCount = 3, responseText = [], pendingData = [],
      isPendingEmptyThought = False, contentBlocked = False, blockReason = [],
      info = sample_info\<lparr>SendResponseCount := 1\<rparr>, sent = [''images''], logged = []\<rparr>"
  by (simp add: scanned_def handle_data_def sample_unmarshal sample_relay_simps
        sample_info_def initial_state_def StringData_def write_log_def Let_def
        count_candidates_def count_part_def)

lemma sample_scanned_text_images:
  "scanned sample_relay sample_info [''text'', ''images''] =
     \<lparr>usage = \<lparr>PromptTokens = 7, CompletionTokens = 5, TotalTokens = 12,
                ReasoningTokens = 3, AudioTokens = 0, TextTokens = 0\<rparr>,
      imageCount = 3, responseText = ''Hello'', pendingData = [],
      isPendingEmptyThought = False, contentBlocked = False, blockReason = [],
      info = sample_info\<lparr>SendResponseCount := 2\<rparr>, sent = [''text'', ''images''],
      logged = []\<rparr>"
  by (simp add: scanned_def handle_data_def sample_unmarshal sample_relay_simps
        sample_info_def initial_state_def StringData_def write_log_def Let_def
        count_candidates_def count_part_def set_usage_def empty_Usage_def)

subsection \<open>The stream session\<close>

lemma count_part_fields:
  "sent (count_part p st) = sent st \<and> info (count_part p st) = info st
   \<and> pendingData (count_part p st) = pendingData st
   \<and> isPendingEmptyThought (count_part p st) = isPendingEmptyThought st
   \<and> contentBlocked (count_part p st) = contentBlocked st
   \<and> blockReason (count_part p st) = blockReason st
   \<and> usage (count_part p st) = usage st
   \<and> logged (count_part p st) = logged st
   \<and> imageCount st \<le> imageCount (count_part p st)"
  by (simp add: count_part_def Let_def split: option.splits)

lemma count_candidates_fields:
  "sent (count_candidates cs st) = sent st \<and> info (count_candidates cs st) = info st
   \<and> pendingData (count_candidates cs st) = pendingData st
   \<and> isPendingEmptyThought (count_candidates cs st) = isPendingEmptyThought st
   \<and> contentBlocked (count_candidates cs st) = contentBlocked st
   \<and> blockReason (count_candidates cs st) = blockReason st
   \<and> usage (count_candidates cs st) = usage st
   \<and> logged (count_candidates cs st) = logged st
   \<and> imageCount st \<le> imageCount (count_candidates cs st)"
  unfolding count_candidates_def
proof (induction cs arbitrary: st)
  case Nil
  show ?case by simp
next
  case (Cons c cs)
  have inner: "sent (fold count_part ps s) = sent s \<and> info (fold count_part ps s) = info s
     \<and> pendingData (fold count_part ps s) = pendingData s
     \<and> isPendingEmptyThought (fold count_part ps s) = isPendingEmptyThought s
     \<and> contentBlocked (fold count_part ps s) = contentBlocked s
     \<and> blockReason (fold count_part ps s) = blockReason s
     \<and> usage (fold count_part ps s) = usage s
     \<and> logged (fold count_part ps s) = logged s
     \<and> imageCount s \<le> imageCount (fold count_part ps s)" for ps s
  proof (induction ps arbitrary: s)
    case Nil
    show ?case by simp
  next
    case (Cons p ps)
    from Cons.IH [of "count_part p s"] count_part_fields [of p s]
    show ?case by simp
  qed
  from Cons.IH [of "fold count_part (Parts (Content c)) st"]
    inner [of "Parts (Content c)" st]
  show ?case by simp
qed

lemma resolve_write_log: "resolve env (write_log entry st) = resolve env st"
  by (simp add: resolve_def write_log_def StringData_def Let_def)

lemma handle_data_malformed:
  "Unmarshal env data = Inl err \<Longrightarrow>
     handle_data env st data =
       (write_log (LogError (''error unmarshalling stream response: '' @ err)) st, False)"
  by (simp add: handle_data_def)

lemma scan_stops_at:
  assumes "Unmarshal env bad = Inl err"
  shows "resolve env (StreamScannerHandler (handle_data env) st (pre @ bad # rest))
           = resolve env (StreamScannerHandler (handle_data env) st pre)"
proof (induction pre arbitrary: st)
  case Nil
  show ?case by (simp add: handle_data_malformed [OF assms] resolve_write_log)
next
  case (Cons d pre)
  show ?case by (cases "handle_data env st d") (simp add: Cons.IH split: bool.splits)
qed

text \<open>The transitions of the lookahead, one lemma for each.\<close>

lemma handle_data_hold:
  assumes "Unmarshal env data = Inr r" and "IsEmptyThoughtResponse env r"
    and "SendResponseCount (info st) = 0" and "pendingData st = []"
    and "\<not> isPendingEmptyThought st"
  shows "\<exists>st'. handle_data env st data = (st', True) \<and> sent st' = sent st
           \<and> pendingData st' = data \<and> isPendingEmptyThought st'
           \<and> contentBlocked st' = contentBlocked st \<and> info st' = info st"
  using assms by (simp add: handle_data_def write_log_def Let_def)

lemma handle_data_block:
  assumes "Unmarshal env data = Inr r" and "IsBlocked env (PromptFeedback r)"
    and "isPendingEmptyThought st"
  shows "\<exists>st'. handle_data env st data = (st', False) \<and> sent st' = sent st
           \<and> contentBlocked st' \<and> blockReason st' = BlockReason (PromptFeedback r)"
  using assms by (simp add: handle_data_def write_log_def)

lemma handle_data_release:
  assumes "Unmarshal env data = Inr r" and "\<not> IsBlocked env (PromptFeedback r)"
    and "pendingData st \<noteq> []"
  shows "\<exists>st'. handle_data env st data = (st', True)
           \<and> sent st' = sent st @ [pendingData st, data] \<and> pendingData st' = []
           \<and> contentBlocked st' = contentBlocked st
           \<and> SendResponseCount (info st') = SendResponseCount (info st) + 2"
  using assms
    count_candidates_fields [of "Candidates r"
      "(StringData (pendingData st) st)\<lparr>pendingData := [], isPendingEmptyThought := False\<rparr>"]
  by (simp add: handle_data_def StringData_def Let_def)

lemma handle_data_forward:
  assumes "Unmarshal env data = Inr r" and "\<not> IsEmptyThoughtResponse env r"
    and "pendingData st = []" and "\<not> isPendingEmptyThought st"
  shows "\<exists>st'. handle_data env st data = (st', True) \<and> sent st' = sent st @ [data]
           \<and> pendingData st' = []"
proof -
  define w where "w = write_log (LogWarn (''Gemini content blocked (stream already started): ''
      @ BlockReason (PromptFeedback r))) st"
  from assms show ?thesis
    using count_candidates_fields [of "Candidates r" st]
      count_candidates_fields [of "Candidates r" w]
    unfolding w_def
    by (simp add: handle_data_def StringData_def write_log_def Let_def)
qed

lemma initial_state_simps:
  "sent (initial_state i) = []" "pendingData (initial_state i) = []"
  "\<not> isPendingEmptyThought (initial_state i)" "\<not> contentBlocked (initial_state i)"
  "info (initial_state i) = i"
  by (simp_all add: initial_state_def)

lemma handle_data_counted:
  assumes "counted st"
  shows "counted (fst (handle_data env st data))"
proof (cases "Unmarshal env data")
  case (Inl err)
  with assms show ?thesis by (simp add: handle_data_def counted_def write_log_def)
next
  case (Inr r)
  define w where "w = write_log (LogWarn (''Gemini content blocked (stream already started): ''
      @ BlockReason (PromptFeedback r))) st"
  from Inr assms show ?thesis
    using count_candidates_fields [of "Candidates r" st]
      count_candidates_fields [of "Candidates r" w]
      count_candidates_fields [of "Candidates r"
        "(StringData (pendingData st) st)\<lparr>pendingData := [], isPendingEmptyThought := False\<rparr>"]
      count_candidates_fields [of "Candidates r"
        "(StringData (pendingData w) w)\<lparr>pendingData := [], isPendingEmptyThought := False\<rparr>"]
    unfolding w_def
    by (auto simp: handle_data_def counted_def StringData_def write_log_def Let_def)
qed

lemma handle_data_sent:
  "\<exists>more. sent (fst (handle_data env st data)) = sent st @ more"
proof (cases "Unmarshal env data")
  case (Inl err)
  then show ?thesis by (simp add: handle_data_def write_log_def)
next
  case (Inr r)
  define w where "w = write_log (LogWarn (''Gemini content blocked (stream already started): ''
      @ BlockReason (PromptFeedback r))) st"
  from Inr show ?thesis
    using count_candidates_fields [of "Candidates r" st]
      count_candidates_fields [of "Candidates r" w]
      count_candidates_fields [of "Candidates r"
        "(StringData (pendingData st) st)\<lparr>pendingData := [], isPendingEmptyThought := False\<rparr>"]
      count_candidates_fields [of "Candidates r"
        "(StringData (pendingData w) w)\<lparr>pendingData := [], isPendingEmptyThought := False\<rparr>"]
    unfolding w_def
    by (auto simp: handle_data_def StringData_def write_log_def Let_def)
qed

lemma scan_counted:
  "counted st \<Longrightarrow> counted (StreamScannerHandler (handle_data env) st chunks)"
proof (induction chunks arbitrary: st)
  case Nil
  then show ?case by simp
next
  case (Cons d chunks)
  from handle_data_counted [OF Cons.prems, of env d]
  show ?case
    by (cases "handle_data env st d") (auto simp: Cons.IH split: bool.splits)
qed

lemma scan_sent:
  "\<exists>more. sent (StreamScannerHandler (handle_data env) st chunks) = sent st @ more"
proof (induction chunks arbitrary: st)
  case Nil
  show ?case by simp
next
  case (Cons d chunks)
  obtain st' b where h: "handle_data env st d = (st', b)"
    by (cases "handle_data env st d")
  from handle_data_sent [of env st d] h obtain m1 where m1: "sent st' = sent st @ m1"
    by auto
  from Cons.IH [of st'] obtain m2 where
    "sent (StreamScannerHandler (handle_data env) st' chunks) = sent st' @ m2" by blast
  with h m1 show ?case by (cases b) auto
qed

lemma resolve_sent: "\<exists>more. fst (resolve env st) = sent st @ more"
  by (simp add: resolve_def Let_def StringData_def)

lemma initial_counted: "SendResponseCount i = 0 \<Longrightarrow> counted (initial_state i)"
  by (simp add: counted_def initial_state_def)


subsection \<open>The claims\<close>

text \<open>
  C1: in a session that starts with no response sent, let the first chunk parse.
  If it matches the empty-reasoning predicate and the second chunk parses and signals a
  block, nothing is written to the client and the handler returns ContentFiltered,
  whatever follows. If it matches the predicate (and is not the empty string) and the
  second chunk parses and does not signal a block, the first chunk is held back when it
  arrives, the two-chunk stream writes exactly the first chunk and then the second, and
  any longer stream starts with these two writes. If it does not match the predicate, the
  callback writes it at once, holds nothing back and goes on reading.
\<close>

theorem stream_lookahead:
  assumes "SendResponseCount i = 0"
    and "Unmarshal env da = Inr ra"
  shows "(IsEmptyThoughtResponse env ra \<and> Unmarshal env db = Inr rb
          \<and> IsBlocked env (PromptFeedback rb) \<longrightarrow>
            GeminiTextGenerationStreamHandler env i (da # db # rest) =
              ([], Inl \<lparr>Err = ''content blocked by Gemini safety filter: ''
                                @ BlockReason (PromptFeedback rb),
                        errorCode = ErrorCodeContentFiltered, StatusCode = 400,
                        skipRetry = True\<rparr>))
       \<and> (IsEmptyThoughtResponse env ra \<and> da \<noteq> [] \<and> Unmarshal env db = Inr rb
          \<and> \<not> IsBlocked env (PromptFeedback rb) \<longrightarrow>
            sent (fst (handle_data env (initial_state i) da)) = []
            \<and> fst (GeminiTextGenerationStreamHandler env i [da, db]) = [da, db]
            \<and> (\<exists>more. fst (GeminiTextGenerationStreamHandler env i (da # db # rest))
                         = da # db # more))
       \<and> (\<not> IsEmptyThoughtResponse env ra \<longrightarrow>
            sent (fst (handle_data env (initial_state i) da)) = [da]
            \<and> pendingData (fst (handle_data env (initial_state i) da)) = []
            \<and> snd (handle_data env (initial_state i) da)
            \<and> (\<exists>more. fst (GeminiTextGenerationStreamHandler env i (da # rest)) = da # more))"
proof (intro conjI impI)
  assume a: "IsEmptyThoughtResponse env ra \<and> Unmarshal env db = Inr rb
      \<and> IsBlocked env (PromptFeedback rb)"
  from handle_data_hold [OF assms(2), of "initial_state i"] a assms(1)
  obtain p where h1: "handle_data env (initial_state i) da = (p, True)"
      and p: "sent p = []" "isPendingEmptyThought p"
    by (auto simp: initial_state_simps)
  from handle_data_block [of env db rb p] a p
  obtain st2 where h2: "handle_data env p db = (st2, False)" and s2: "sent st2 = []"
      and b2: "contentBlocked st2" "blockReason st2 = BlockReason (PromptFeedback rb)"
    by auto
  from h1 h2 s2 b2
  show "GeminiTextGenerationStreamHandler env i (da # db # rest) =
      ([], Inl \<lparr>Err = ''content blocked by Gemini safety filter: ''
                        @ BlockReason (PromptFeedback rb),
                errorCode = ErrorCodeContentFiltered, StatusCode = 400, skipRetry = True\<rparr>)"
    by (simp add: GeminiTextGenerationStreamHandler_def scanned_def resolve_def
          NewErrorWithStatusCode_def StatusBadRequest_def)
next
  assume a: "IsEmptyThoughtResponse env ra \<and> da \<noteq> [] \<and> Unmarshal env db = Inr rb
      \<and> \<not> IsBlocked env (PromptFeedback rb)"
  from handle_data_hold [OF assms(2), of "initial_state i"] a assms(1)
  obtain p where h1: "handle_data env (initial_state i) da = (p, True)"
      and p: "sent p = []" "pendingData p = da" "\<not> contentBlocked p"
        "SendResponseCount (info p) = 0"
    by (auto simp: initial_state_simps)
  from h1 p show "sent (fst (handle_data env (initial_state i) da)) = []"
    by simp
  from handle_data_release [of env db rb p] a p
  obtain st2 where h2: "handle_data env p db = (st2, True)" and s2: "sent st2 = [da, db]"
      and p2: "pendingData st2 = []" and b2: "\<not> contentBlocked st2"
      and n2: "SendResponseCount (info st2) = 2"
    by auto
  from h1 h2 s2 p2 b2 n2
  show "fst (GeminiTextGenerationStreamHandler env i [da, db]) = [da, db]"
    by (simp add: GeminiTextGenerationStreamHandler_def scanned_def resolve_def Let_def)
  from h1 h2 have "scanned env i (da # db # rest) = StreamScannerHandler (handle_data env) st2 rest"
    by (simp add: scanned_def)
  with scan_sent [of env st2 rest] s2
  obtain m where "sent (scanned env i (da # db # rest)) = [da, db] @ m" by auto
  with resolve_sent [of env "scanned env i (da # db # rest)"]
  show "\<exists>more. fst (GeminiTextGenerationStreamHandler env i (da # db # rest)) = da # db # more"
    by (auto simp: GeminiTextGenerationStreamHandler_def)
next
  assume a: "\<not> IsEmptyThoughtResponse env ra"
  from handle_data_forward [OF assms(2) a, of "initial_state i"]
  obtain st1 where h1: "handle_data env (initial_state i) da = (st1, True)"
      and s1: "sent st1 = [da]" and p1: "pendingData st1 = []"
    by (auto simp: initial_state_simps)
  then show "sent (fst (handle_data env (initial_state i) da)) = [da]"
    and "pendingData (fst (handle_data env (initial_state i) da)) = []"
    and "snd (handle_data env (initial_state i) da)"
    by simp_all
  from h1 have "scanned env i (da # rest) = StreamScannerHandler (handle_data env) st1 rest"
    by (simp add: scanned_def)
  with scan_sent [of env st1 rest] s1
  obtain m where "sent (scanned env i (da # rest)) = [da] @ m" by auto
  with resolve_sent [of env "scanned env i (da # rest)"]
  show "\<exists>more. fst (GeminiTextGenerationStreamHandler env i (da # rest)) = da # more"
    by (auto simp: GeminiTextGenerationStreamHandler_def)
qed

theorem stream_lookahead_witness:
  "GeminiTextGenerationStreamHandler sample_relay sample_info [''thought'', ''blocked'', ''text'']
     = ([], Inl \<lparr>Err = ''content blocked by Gemini safety filter: SAFETY'',
                 errorCode = ErrorCodeContentFiltered, StatusCode = 400, skipRetry = True\<rparr>)
   \<and> fst (GeminiTextGenerationStreamHandler sample_relay sample_info [''thought'', ''text''])
     = [''thought'', ''text'']
   \<and> sent (fst (handle_data sample_relay (initial_state sample_info) ''text'')) = [''text'']"
proof -
  note blocked = stream_lookahead [OF sample_info_fresh sample_unmarshal(1),
      where db = "''blocked''" and rest = "[''text'']"
        and rb = "\<lparr>Candidates = [], PromptFeedback = \<lparr>BlockReason = ''SAFETY''\<rparr>,
          UsageMetadata = \<lparr>PromptTokenCount = 7, CandidatesTokenCount = 0,
            ThoughtsTokenCount = 0, TotalTokenCount = 7, PromptTokensDetails = []\<rparr>\<rparr>"]
  note normal = stream_lookahead [OF sample_info_fresh sample_unmarshal(1),
      where db = "''text''" and rest = "[]"
        and rb = "\<lparr>Candidates = [\<lparr>Content = \<lparr>Parts = [\<lparr>Text = ''Hello'', InlineData = None\<rparr>]\<rparr>\<rparr>],
          PromptFeedback = \<lparr>BlockReason = []\<rparr>,
          UsageMetadata = \<lparr>PromptTokenCount = 7, CandidatesTokenCount = 2,
            ThoughtsTokenCount = 3, TotalTokenCount = 12, PromptTokensDetails = []\<rparr>\<rparr>"]
  note direct = stream_lookahead [OF sample_info_fresh sample_unmarshal(3),
      where db = "''text''" and rest = "[]"
        and rb = "\<lparr>Candidates = [], PromptFeedback = \<lparr>BlockReason = []\<rparr>,
          UsageMetadata = \<lparr>PromptTokenCount = 0, CandidatesTokenCount = 0,
            ThoughtsTokenCount = 0, TotalTokenCount = 0, PromptTokensDetails = []\<rparr>\<rparr>"]
  have "GeminiTextGenerationStreamHandler sample_relay sample_info
          [''thought'', ''blocked'', ''text'']
     = ([], Inl \<lparr>Err = ''content blocked by Gemini safety filter: SAFETY'',
                 errorCode = ErrorCodeContentFiltered, StatusCode = 400, skipRetry = True\<rparr>)"
    using blocked by (simp add: sample_unmarshal(2) sample_relay_simps)
  moreover have "fst (GeminiTextGenerationStreamHandler sample_relay sample_info
      [''thought'', ''text'']) = [''thought'', ''text'']"
    using normal by (simp add: sample_unmarshal(3) sample_relay_simps)
  moreover have "sent (fst (handle_data sample_relay (initial_state sample_info) ''text''))
      = [''text'']"
    using direct by (simp add: sample_relay_simps)
  ultimately show ?thesis by simp
qed

text \<open>
  C3, as the claim states it, fails: a first chunk that does not parse ends the session
  with EmptyResponse, and the well-formed chunk after it is never read; without the
  malformed chunk the same chunk is forwarded.
\<close>

theorem malformed_chunk_ends_session_counterexample:
  "Unmarshal sample_relay ''garbage'' = Inl ''invalid character''
   \<and> GeminiTextGenerationStreamHandler sample_relay sample_info [''garbage'', ''text'']
       = ([], Inl \<lparr>Err = ''no response received from Gemini API'',
                   errorCode = ErrorCodeEmptyResponse, StatusCode = 500, skipRetry = False\<rparr>)
   \<and> fst (GeminiTextGenerationStreamHandler sample_relay sample_info [''text'']) = [''text'']"
  by (simp add: GeminiTextGenerationStreamHandler_def scanned_def handle_data_def
        sample_unmarshal sample_relay_simps sample_info_def initial_state_def resolve_def
        NewOpenAIError_def StatusInternalServerError_def StringData_def write_log_def Let_def
        count_candidates_def count_part_def)

text \<open>
  C3, amended: a chunk that does not parse is dropped and logged, changes nothing else
  in the state of the session and stops the reading: the session resolves as if the
  stream had ended just before that chunk.
\<close>

theorem malformed_chunk_stops_reading:
  assumes "Unmarshal env bad = Inl err"
  shows "handle_data env st bad =
           (st\<lparr>logged := logged st
                  @ [LogError (''error unmarshalling stream response: '' @ err)]\<rparr>, False)
       \<and> GeminiTextGenerationStreamHandler env i (pre @ bad # rest)
           = GeminiTextGenerationStreamHandler env i pre"
  using assms handle_data_malformed [OF assms, of st]
    scan_stops_at [OF assms, of "initial_state i" pre rest]
  by (simp add: GeminiTextGenerationStreamHandler_def scanned_def write_log_def)

theorem malformed_chunk_stops_reading_witness:
  "GeminiTextGenerationStreamHandler sample_relay sample_info [''text'', ''garbage'', ''text'']
     = GeminiTextGenerationStreamHandler sample_relay sample_info [''text'']
   \<and> GeminiTextGenerationStreamHandler sample_relay sample_info [''garbage'', ''text'']
     = GeminiTextGenerationStreamHandler sample_relay sample_info []
   \<and> logged (fst (handle_data sample_relay (initial_state sample_info) ''garbage''))
     = [LogError ''error unmarshalling stream response: invalid character'']"
  using malformed_chunk_stops_reading [OF sample_unmarshal(5),
      of "initial_state sample_info" sample_info "[''text'']" "[''text'']"]
    malformed_chunk_stops_reading [OF sample_unmarshal(5),
      of "initial_state sample_info" sample_info "[]" "[''text'']"]
  by (simp add: initial_state_def)

text \<open>
  C4, as the claim states it, fails: a response whose \<open>usageMetadata\<close> is present
  without \<open>candidatesTokenCount\<close> and whose \<open>promptFeedback\<close> signals a block fails
  with ContentFiltered, not EmptyResponse.
\<close>

theorem blocked_missing_count_counterexample:
  "missing_candidatesTokenCount sample_relay ''blocked''
   \<and> GeminiTextGenerationHandler sample_relay (Inr ''blocked'') =
       ([], Inl \<lparr>Err = ''content blocked by Gemini safety filter: SAFETY'',
                 errorCode = ErrorCodeContentFiltered, StatusCode = 400, skipRetry = True\<rparr>)"
  by (simp add: GeminiTextGenerationHandler_def sample_unmarshal sample_relay_simps
        missing_candidatesTokenCount_def sample_parse_bodies blocked_chunk_def
        object_member_def NewErrorWithStatusCode_def StatusBadRequest_def)

text \<open>
  C4, amended: a whole response that decodes as the envelope, whose safety feedback does
  not signal a block and whose \<open>usageMetadata\<close> is an object without the key
  \<open>candidatesTokenCount\<close> fails with EmptyResponse, status 400, marked skip-retry, and
  nothing is forwarded.
\<close>

theorem missing_count_is_empty_response:
  assumes "parse_json env responseBody = Inr (JObject kvs)"
    and "dec_GeminiChatResponse (JObject kvs) = Some r"
    and "\<not> IsBlocked env (PromptFeedback r)"
    and "object_member ''usageMetadata'' kvs = Some (JObject um)"
    and "object_member ''candidatesTokenCount'' um = None"
  shows "GeminiTextGenerationHandler env (Inr responseBody) =
           ([], Inl \<lparr>Err = ''no response from Gemini API'',
                     errorCode = ErrorCodeEmptyResponse, StatusCode = 400, skipRetry = True\<rparr>)"
  using assms by (rule whole_missing_count)

theorem missing_count_is_empty_response_witness:
  "GeminiTextGenerationHandler sample_relay (Inr ''no_count'') =
     ([], Inl \<lparr>Err = ''no response from Gemini API'',
               errorCode = ErrorCodeEmptyResponse, StatusCode = 400, skipRetry = True\<rparr>)"
proof -
  have p: "parse_json sample_relay ''no_count'' = Inr (JObject
      [(''candidates'', JArray []),
       (''usageMetadata'', JObject [(''promptTokenCount'', JInt 7),
                                    (''totalTokenCount'', JInt 7)])])"
    by (simp add: sample_parse_bodies no_count_body_def)
  have d: "dec_GeminiChatResponse (JObject
      [(''candidates'', JArray []),
       (''usageMetadata'', JObject [(''promptTokenCount'', JInt 7),
                                    (''totalTokenCount'', JInt 7)])]) =
     Some \<lparr>Candidates = [], PromptFeedback = \<lparr>BlockReason = []\<rparr>,
           UsageMetadata = \<lparr>PromptTokenCount = 7, CandidatesTokenCount = 0,
             ThoughtsTokenCount = 0, TotalTokenCount = 7, PromptTokensDetails = []\<rparr>\<rparr>"
    using sample_dec_bodies(1) by (simp add: no_count_body_def)
  have b: "\<not> IsBlocked sample_relay (PromptFeedback
      \<lparr>Candidates = [], PromptFeedback = \<lparr>BlockReason = []\<rparr>,
       UsageMetadata = \<lparr>PromptTokenCount = 7, CandidatesTokenCount = 0,
         ThoughtsTokenCount = 0, TotalTokenCount = 7, PromptTokensDetails = []\<rparr>\<rparr>)"
    by (simp add: sample_relay_simps)
  have u: "object_member ''usageMetadata''
      [(''candidates'', JArray []),
       (''usageMetadata'', JObject [(''promptTokenCount'', JInt 7),
                                    (''totalTokenCount'', JInt 7)])]
     = Some (JObject [(''promptTokenCount'', JInt 7), (''totalTokenCount'', JInt 7)])"
    by (simp add: object_member_def)
  have c: "object_member ''candidatesTokenCount''
      [(''promptTokenCount'', JInt 7), (''totalTokenCount'', JInt 7)] = None"
    by (simp add: object_member_def)
  show ?thesis by (rule missing_count_is_empty_response [OF p d b u c])
qed

text \<open>
  C5: a whole response that decodes as the envelope and whose safety feedback signals a
  block fails with ContentFiltered, status 400, marked skip-retry, and nothing is
  forwarded.
\<close>

theorem blocked_whole_response_filtered:
  assumes "Unmarshal env responseBody = Inr r"
    and "IsBlocked env (PromptFeedback r)"
  shows "GeminiTextGenerationHandler env (Inr responseBody) =
           ([], Inl \<lparr>Err = ''content blocked by Gemini safety filter: ''
                             @ BlockReason (PromptFeedback r),
                     errorCode = ErrorCodeContentFiltered, StatusCode = 400,
                     skipRetry = True\<rparr>)"
  using assms by (rule whole_blocked)

theorem blocked_whole_response_filtered_witness:
  "GeminiTextGenerationHandler sample_relay (Inr ''blocked'') =
     ([], Inl \<lparr>Err = ''content blocked by Gemini safety filter: SAFETY'',
               errorCode = ErrorCodeContentFiltered, StatusCode = 400, skipRetry = True\<rparr>)"
proof -
  have b: "IsBlocked sample_relay (PromptFeedback
      \<lparr>Candidates = [], PromptFeedback = \<lparr>BlockReason = ''SAFETY''\<rparr>,
       UsageMetadata = \<lparr>PromptTokenCount = 7, CandidatesTokenCount = 0,
         ThoughtsTokenCount = 0, TotalTokenCount = 7, PromptTokensDetails = []\<rparr>\<rparr>)"
    by (simp add: sample_relay_simps)
  from blocked_whole_response_filtered [OF sample_unmarshal(2) b]
  show ?thesis by simp
qed

text \<open>
  C6: a stream session that starts with no response sent, writes nothing to the client
  and is not blocked fails with EmptyResponse, status 500, not marked skip-retry; the
  EmptyResponse of a whole response has status 400 and is marked skip-retry.
\<close>

theorem empty_stream_is_retryable_empty_response:
  "(SendResponseCount i = 0
      \<and> fst (GeminiTextGenerationStreamHandler env i chunks) = []
      \<and> \<not> contentBlocked (scanned env i chunks) \<longrightarrow>
    snd (GeminiTextGenerationStreamHandler env i chunks) =
      Inl \<lparr>Err = ''no response received from Gemini API'',
           errorCode = ErrorCodeEmptyResponse, StatusCode = 500, skipRetry = False\<rparr>)
   \<and> (parse_json env responseBody = Inr (JObject kvs)
      \<and> dec_GeminiChatResponse (JObject kvs) = Some r
      \<and> \<not> IsBlocked env (PromptFeedback r)
      \<and> object_member ''usageMetadata'' kvs = Some (JObject um)
      \<and> object_member ''candidatesTokenCount'' um = None \<longrightarrow>
    snd (GeminiTextGenerationHandler env (Inr responseBody)) =
      Inl \<lparr>Err = ''no response from Gemini API'',
           errorCode = ErrorCodeEmptyResponse, StatusCode = 400, skipRetry = True\<rparr>)"
proof (intro conjI impI)
  assume a: "SendResponseCount i = 0
      \<and> fst (GeminiTextGenerationStreamHandler env i chunks) = []
      \<and> \<not> contentBlocked (scanned env i chunks)"
  define st where "st = scanned env i chunks"
  have c: "counted st"
    unfolding st_def scanned_def using a by (intro scan_counted initial_counted) simp
  from a have "pendingData st = []" and "sent st = []"
    by (auto simp: GeminiTextGenerationStreamHandler_def resolve_def st_def [symmetric]
          Let_def StringData_def split: if_splits)
  with c a show "snd (GeminiTextGenerationStreamHandler env i chunks) =
      Inl \<lparr>Err = ''no response received from Gemini API'',
           errorCode = ErrorCodeEmptyResponse, StatusCode = 500, skipRetry = False\<rparr>"
    by (simp add: GeminiTextGenerationStreamHandler_def resolve_def st_def [symmetric]
          counted_def NewOpenAIError_def StatusInternalServerError_def)
next
  assume "parse_json env responseBody = Inr (JObject kvs)
      \<and> dec_GeminiChatResponse (JObject kvs) = Some r
      \<and> \<not> IsBlocked env (PromptFeedback r)
      \<and> object_member ''usageMetadata'' kvs = Some (JObject um)
      \<and> object_member ''candidatesTokenCount'' um = None"
  then show "snd (GeminiTextGenerationHandler env (Inr responseBody)) =
      Inl \<lparr>Err = ''no response from Gemini API'',
           errorCode = ErrorCodeEmptyResponse, StatusCode = 400, skipRetry = True\<rparr>"
    by (simp add: whole_missing_count)
qed

theorem empty_stream_is_retryable_empty_response_witness:
  "snd (GeminiTextGenerationStreamHandler sample_relay sample_info [''garbage'', ''text'']) =
     Inl \<lparr>Err = ''no response received from Gemini API'',
          errorCode = ErrorCodeEmptyResponse, StatusCode = 500, skipRetry = False\<rparr>
   \<and> snd (GeminiTextGenerationHandler sample_relay (Inr ''no_count'')) =
     Inl \<lparr>Err = ''no response from Gemini API'',
          errorCode = ErrorCodeEmptyResponse, StatusCode = 400, skipRetry = True\<rparr>"
proof -
  have sc: "scanned sample_relay sample_info [''garbage'', ''text''] =
      write_log (LogError ''error unmarshalling stream response: invalid character'')
        (initial_state sample_info)"
    by (simp add: scanned_def handle_data_def sample_unmarshal)
  have f: "fst (GeminiTextGenerationStreamHandler sample_relay sample_info
      [''garbage'', ''text'']) = []"
    by (simp add: GeminiTextGenerationStreamHandler_def sc resolve_write_log)
       (simp add: resolve_def initial_state_def sample_info_fresh)
  have nb: "\<not> contentBlocked (scanned sample_relay sample_info [''garbage'', ''text''])"
    by (simp add: sc initial_state_def write_log_def)
  have whole: "parse_json sample_relay ''no_count'' = Inr (JObject
        [(''candidates'', JArray []),
         (''usageMetadata'', JObject [(''promptTokenCount'', JInt 7),
                                      (''totalTokenCount'', JInt 7)])])
      \<and> dec_GeminiChatResponse (JObject
        [(''candidates'', JArray []),
         (''usageMetadata'', JObject [(''promptTokenCount'', JInt 7),
                                      (''totalTokenCount'', JInt 7)])]) =
        Some \<lparr>Candidates = [], PromptFeedback = \<lparr>BlockReason = []\<rparr>,
           UsageMetadata = \<lparr>PromptTokenCount = 7, CandidatesTokenCount = 0,
             ThoughtsTokenCount = 0, TotalTokenCount = 7, PromptTokensDetails = []\<rparr>\<rparr>
      \<and> \<not> IsBlocked sample_relay (PromptFeedback
        \<lparr>Candidates = [], PromptFeedback = \<lparr>BlockReason = []\<rparr>,
         UsageMetadata = \<lparr>PromptTokenCount = 7, CandidatesTokenCount = 0,
           ThoughtsTokenCount = 0, TotalTokenCount = 7, PromptTokensDetails = []\<rparr>\<rparr>)
      \<and> object_member ''usageMetadata''
        [(''candidates'', JArray []),
         (''usageMetadata'', JObject [(''promptTokenCount'', JInt 7),
                                      (''totalTokenCount'', JInt 7)])]
        = Some (JObject [(''promptTokenCount'', JInt 7), (''totalTokenCount'', JInt 7)])
      \<and> object_member ''candidatesTokenCount''
        [(''promptTokenCount'', JInt 7), (''totalTokenCount'', JInt 7)] = None"
    using sample_dec_bodies(1)
    by (simp add: sample_parse_bodies no_count_body_def sample_relay_simps object_member_def)
  from empty_stream_is_retryable_empty_response
    [of sample_info sample_relay "[''garbage'', ''text'']" "''no_count''"
      "[(''candidates'', JArray []),
        (''usageMetadata'', JObject [(''promptTokenCount'', JInt 7),
                                     (''totalTokenCount'', JInt 7)])]"
      "\<lparr>Candidates = [], PromptFeedback = \<lparr>BlockReason = []\<rparr>,
        UsageMetadata = \<lparr>PromptTokenCount = 7, CandidatesTokenCount = 0,
          ThoughtsTokenCount = 0, TotalTokenCount = 7, PromptTokensDetails = []\<rparr>\<rparr>"
      "[(''promptTokenCount'', JInt 7), (''totalTokenCount'', JInt 7)]"]
    sample_info_fresh f nb whole
  show ?thesis by blast
qed

text \<open>
  C8: in a session that starts with no response sent and is not blocked, when at least
  one inline image part was counted: if the usage taken from the provider has zero
  completion tokens, the handler returns that usage with the completion tokens set to
  258 times the image count; if it has completion tokens, the handler returns it
  unchanged.
\<close>

theorem image_tokens_synthesized:
  assumes "SendResponseCount i = 0"
    and "\<not> contentBlocked (scanned env i chunks)"
    and "imageCount (scanned env i chunks) \<noteq> 0"
  shows "(CompletionTokens (usage (scanned env i chunks)) = 0 \<longrightarrow>
            snd (GeminiTextGenerationStreamHandler env i chunks) =
              Inr ((usage (scanned env i chunks))
                     \<lparr>CompletionTokens := imageCount (scanned env i chunks) * 258\<rparr>))
       \<and> (CompletionTokens (usage (scanned env i chunks)) \<noteq> 0 \<longrightarrow>
            snd (GeminiTextGenerationStreamHandler env i chunks) =
              Inr (usage (scanned env i chunks)))"
proof -
  define st where "st = scanned env i chunks"
  have c: "counted st"
    unfolding st_def scanned_def by (intro scan_counted initial_counted assms(1))
  with assms(3) have "0 < SendResponseCount (info st)"
    by (auto simp: counted_def st_def [symmetric])
  with assms(2,3) show ?thesis
    by (simp add: GeminiTextGenerationStreamHandler_def resolve_def st_def [symmetric]
          Let_def StringData_def)
qed

theorem image_tokens_synthesized_witness:
  "snd (GeminiTextGenerationStreamHandler sample_relay sample_info [''images'']) =
     Inr (empty_Usage\<lparr>CompletionTokens := 774\<rparr>)
   \<and> snd (GeminiTextGenerationStreamHandler sample_relay sample_info [''text'', ''images'']) =
     Inr \<lparr>PromptTokens = 7, CompletionTokens = 5, TotalTokens = 12,
          ReasoningTokens = 3, AudioTokens = 0, TextTokens = 0\<rparr>"
proof -
  have a: "\<not> contentBlocked (scanned sample_relay sample_info [''images''])"
      "imageCount (scanned sample_relay sample_info [''images'']) \<noteq> 0"
    by (simp_all add: sample_scanned_images)
  have b: "\<not> contentBlocked (scanned sample_relay sample_info [''text'', ''images''])"
      "imageCount (scanned sample_relay sample_info [''text'', ''images'']) \<noteq> 0"
    by (simp_all add: sample_scanned_text_images)
  from image_tokens_synthesized [OF sample_info_fresh a]
  have "snd (GeminiTextGenerationStreamHandler sample_relay sample_info [''images'']) =
     Inr (empty_Usage\<lparr>CompletionTokens := 774\<rparr>)"
    by (simp add: sample_scanned_images empty_Usage_def)
  moreover from image_tokens_synthesized [OF sample_info_fresh b]
  have "snd (GeminiTextGenerationStreamHandler sample_relay sample_info [''text'', ''images'']) =
     Inr \<lparr>PromptTokens = 7, CompletionTokens = 5, TotalTokens = 12,
          ReasoningTokens = 3, AudioTokens = 0, TextTokens = 0\<rparr>"
    by (simp add: sample_scanned_text_images)
  ultimately show ?thesis by simp
qed

text \<open>
  C9: the whole-response handler fails with EmptyResponse only for a body that is a JSON
  object whose \<open>usageMetadata\<close> is an object without \<open>candidatesTokenCount\<close>. A
  body that decodes as the envelope, whose safety feedback does not signal a block and
  whose JSON object has no \<open>usageMetadata\<close> key is forwarded unchanged, and the
  handler returns the usage record with every count zero.
\<close>

theorem no_usage_key_succeeds:
  "(GeminiTextGenerationHandler env body = (out, Inl e)
      \<and> errorCode e = ErrorCodeEmptyResponse \<longrightarrow>
    (\<exists>responseBody kvs um. body = Inr responseBody
       \<and> parse_json env responseBody = Inr (JObject kvs)
       \<and> object_member ''usageMetadata'' kvs = Some (JObject um)
       \<and> object_member ''candidatesTokenCount'' um = None))
   \<and> (parse_json env responseBody = Inr (JObject kvs)
      \<and> dec_GeminiChatResponse (JObject kvs) = Some r
      \<and> \<not> IsBlocked env (PromptFeedback r)
      \<and> object_member ''usageMetadata'' kvs = None \<longrightarrow>
    GeminiTextGenerationHandler env (Inr responseBody) =
      ([responseBody],
       Inr \<lparr>PromptTokens = 0, CompletionTokens = 0, TotalTokens = 0,
            ReasoningTokens = 0, AudioTokens = 0, TextTokens = 0\<rparr>))"
proof (intro conjI impI)
  assume "GeminiTextGenerationHandler env body = (out, Inl e)
      \<and> errorCode e = ErrorCodeEmptyResponse"
  then show "\<exists>responseBody kvs um. body = Inr responseBody
       \<and> parse_json env responseBody = Inr (JObject kvs)
       \<and> object_member ''usageMetadata'' kvs = Some (JObject um)
       \<and> object_member ''candidatesTokenCount'' um = None"
    by (rule whole_empty_response_only)
next
  assume a: "parse_json env responseBody = Inr (JObject kvs)
      \<and> dec_GeminiChatResponse (JObject kvs) = Some r
      \<and> \<not> IsBlocked env (PromptFeedback r)
      \<and> object_member ''usageMetadata'' kvs = None"
  then have "UsageMetadata r = \<lparr>PromptTokenCount = 0, CandidatesTokenCount = 0,
      ThoughtsTokenCount = 0, TotalTokenCount = 0, PromptTokensDetails = []\<rparr>"
    using dec_absent_usage [of kvs r] by simp
  with a set_usage_zero show "GeminiTextGenerationHandler env (Inr responseBody) =
      ([responseBody],
       Inr \<lparr>PromptTokens = 0, CompletionTokens = 0, TotalTokens = 0,
            ReasoningTokens = 0, AudioTokens = 0, TextTokens = 0\<rparr>)"
    by (simp add: GeminiTextGenerationHandler_def Unmarshal_def
          missing_candidatesTokenCount_def empty_Usage_def)
qed

theorem no_usage_key_succeeds_witness:
  "(\<exists>kvs um. parse_json sample_relay ''no_count'' = Inr (JObject kvs)
       \<and> object_member ''usageMetadata'' kvs = Some (JObject um)
       \<and> object_member ''candidatesTokenCount'' um = None)
   \<and> GeminiTextGenerationHandler sample_relay (Inr ''no_usage'') =
     ([''no_usage''],
      Inr \<lparr>PromptTokens = 0, CompletionTokens = 0, TotalTokens = 0,
           ReasoningTokens = 0, AudioTokens = 0, TextTokens = 0\<rparr>)"
proof -
  have fails: "GeminiTextGenerationHandler sample_relay (Inr ''no_count'') =
      ([], Inl \<lparr>Err = ''no response from Gemini API'', errorCode = ErrorCodeEmptyResponse,
                StatusCode = 400, skipRetry = True\<rparr>)
    \<and> errorCode \<lparr>Err = ''no response from Gemini API'', errorCode = ErrorCodeEmptyResponse,
                StatusCode = 400, skipRetry = True\<rparr> = ErrorCodeEmptyResponse"
    using sample_dec_bodies(1)
    by (simp add: GeminiTextGenerationHandler_def Unmarshal_def sample_parse_bodies
          missing_candidatesTokenCount_def sample_relay_simps NewErrorWithStatusCode_def
          StatusBadRequest_def)
       (simp add: no_count_body_def object_member_def)
  have only: "\<exists>kvs um. parse_json sample_relay ''no_count'' = Inr (JObject kvs)
       \<and> object_member ''usageMetadata'' kvs = Some (JObject um)
       \<and> object_member ''candidatesTokenCount'' um = None"
    using no_usage_key_succeeds [of sample_relay "Inr ''no_count''" "[]"
        "\<lparr>Err = ''no response from Gemini API'', errorCode = ErrorCodeEmptyResponse,
          StatusCode = 400, skipRetry = True\<rparr>"] fails
    by auto
  have p: "parse_json sample_relay ''no_usage'' = Inr (JObject
      [(''candidates'', JArray [JObject [(''content'',
         JObject [(''parts'', JArray [JObject [(''text'', JString ''Hello'')]])])]])])"
    by (simp add: sample_parse_bodies no_usage_body_def)
  have d: "dec_GeminiChatResponse (JObject
      [(''candidates'', JArray [JObject [(''content'',
         JObject [(''parts'', JArray [JObject [(''text'', JString ''Hello'')]])])]])]) =
     Some \<lparr>Candidates = [\<lparr>Content = \<lparr>Parts = [\<lparr>Text = ''Hello'', InlineData = None\<rparr>]\<rparr>\<rparr>],
           PromptFeedback = \<lparr>BlockReason = []\<rparr>,
           UsageMetadata = \<lparr>PromptTokenCount = 0, CandidatesTokenCount = 0,
             ThoughtsTokenCount = 0, TotalTokenCount = 0, PromptTokensDetails = []\<rparr>\<rparr>"
    using sample_dec_bodies(2) by (simp add: no_usage_body_def)
  have b: "\<not> IsBlocked sample_relay (PromptFeedback
      \<lparr>Candidates = [\<lparr>Content = \<lparr>Parts = [\<lparr>Text = ''Hello'', InlineData = None\<rparr>]\<rparr>\<rparr>],
       PromptFeedback = \<lparr>BlockReason = []\<rparr>,
       UsageMetadata = \<lparr>PromptTokenCount = 0, CandidatesTokenCount = 0,
         ThoughtsTokenCount = 0, TotalTokenCount = 0, PromptTokensDetails = []\<rparr>\<rparr>)"
    by (simp add: sample_relay_simps)
  have u: "object_member ''usageMetadata''
      [(''candidates'', JArray [JObject [(''content'',
         JObject [(''parts'', JArray [JObject [(''text'', JString ''Hello'')]])])]])] = None"
    by (simp add: object_member_def)
  from no_usage_key_succeeds [of sample_relay _ _ _ "''no_usage''"
      "[(''candidates'', JArray [JObject [(''content'',
         JObject [(''parts'', JArray [JObject [(''text'', JString ''Hello'')]])])]])]"
      "\<lparr>Candidates = [\<lparr>Content = \<lparr>Parts = [\<lparr>Text = ''Hello'', InlineData = None\<rparr>]\<rparr>\<rparr>],
        PromptFeedback = \<lparr>BlockReason = []\<rparr>,
        UsageMetadata = \<lparr>PromptTokenCount = 0, CandidatesTokenCount = 0,
          ThoughtsTokenCount = 0, TotalTokenCount = 0, PromptTokensDetails = []\<rparr>\<rparr>"]
    p d b u
  have "GeminiTextGenerationHandler sample_relay (Inr ''no_usage'') =
     ([''no_usage''],
      Inr \<lparr>PromptTokens = 0, CompletionTokens = 0, TotalTokens = 0,
           ReasoningTokens = 0, AudioTokens = 0, TextTokens = 0\<rparr>)"
    by blast
  with only show ?thesis by simp
qed

end
